theory Spec2Isabelle
  imports
    Complex_Main
    "HOL-Library.Multiset"
    "HOL-Library.List_Lexorder"
    "HOL-Library.Char_ord"
    "HOL-Library.Product_Lexorder"
begin

section \<open>JavaScript values\<close>

text \<open>
  The values that \<^verbatim>\<open>express.json()\<close> puts into \<^verbatim>\<open>req.body\<close>, plus
  \<^verbatim>\<open>undefined\<close> for a property that is not there. A JSON number is modelled as
  a rational; the rounding of IEEE doubles is outside the model. An object is the list of
  its own properties, each name once.
\<close>

datatype jsval =
    JUndefined
  | JNull
  | JBool bool
  | JNum rat
  | JStr string
  | JArr "jsval list"
  | JObj "(string \<times> jsval) list"

text \<open>\<^verbatim>\<open>!v\<close> is \<open>\<not> truthy v\<close>: the falsy values are undefined, null, false, 0 and the empty string.
  An array is truthy, the empty one too.\<close>

fun truthy :: "jsval \<Rightarrow> bool" where
  "truthy JUndefined = False"
| "truthy JNull = False"
| "truthy (JBool b) = b"
| "truthy (JNum n) = (n \<noteq> 0)"
| "truthy (JStr s) = (s \<noteq> [])"
| "truthy (JArr xs) = True"
| "truthy (JObj kvs) = True"

text \<open>\<^verbatim>\<open>Array.isArray(v)\<close>\<close>

fun isArray :: "jsval \<Rightarrow> bool" where
  "isArray (JArr xs) = True"
| "isArray v = False"

fun elements :: "jsval \<Rightarrow> jsval list" where
  "elements (JArr xs) = xs"
| "elements v = []"

text \<open>\<^verbatim>\<open>a || b\<close>\<close>

definition or_else :: "jsval \<Rightarrow> jsval \<Rightarrow> jsval" where
  "or_else a b = (if truthy a then a else b)"

text \<open>
  \<^verbatim>\<open>v.k\<close> for a value \<open>v\<close> that is neither null nor undefined, and \<open>k\<close> one of the
  property names the handlers read (name, quantity_produced, npc_sell_price, materials,
  material_name, quantity, material_type, default_npc_price): an object gives its own
  property, every other value gives undefined, since no number, string, boolean or array
  has a property of one of these names.
\<close>

fun member :: "jsval \<Rightarrow> string \<Rightarrow> jsval" where
  "member (JObj kvs) k = (case map_of kvs k of None \<Rightarrow> JUndefined | Some v \<Rightarrow> v)"
| "member v k = JUndefined"

text \<open>Reading a property of null or undefined throws a TypeError.\<close>

fun nullish :: "jsval \<Rightarrow> bool" where
  "nullish JUndefined = True"
| "nullish JNull = True"
| "nullish v = False"

text \<open>
  \<^verbatim>\<open>req.body\<close> as \<^verbatim>\<open>express.json()\<close> leaves it: the properties of the parsed
  object, none when the request has no JSON body. (A top-level array has none of the four
  properties the handlers destructure, and behaves as the empty object.)
\<close>

type_synonym body = "(string \<times> jsval) list"

definition field :: "body \<Rightarrow> string \<Rightarrow> jsval" where
  "field b k = member (JObj b) k"

subsection \<open>parseInt(s, 10)\<close>

text \<open>
  \<^verbatim>\<open>req.params.id\<close> is a JavaScript string, here the list of its UTF-16 code units.
  parseInt skips the leading white space, reads one sign, then the longest run of decimal
  digits; what follows the digits is ignored. No digit at all gives NaN, here \<open>None\<close>.
  The white space is that of the language (WhiteSpace and LineTerminator): U+0009 to
  U+000D, U+0020, U+00A0, U+1680, U+2000 to U+200A, U+2028, U+2029, U+202F, U+205F, U+3000
  and U+FEFF. The result is the exact integer (beyond 2^53 the code has the nearest
  double instead, which is the id of no row).
\<close>

type_synonym js_string = "nat list"

definition is_space :: "nat \<Rightarrow> bool" where
  "is_space u =
     (u \<in> set [9, 10, 11, 12, 13, 32, 160, 5760, 8232, 8233, 8239, 8287, 12288, 65279]
      \<or> (8192 \<le> u \<and> u \<le> 8202))"

definition is_digit :: "nat \<Rightarrow> bool" where
  "is_digit u = (48 \<le> u \<and> u \<le> 57)"

definition digit_value :: "nat \<Rightarrow> int" where
  "digit_value u = int u - 48"

definition digits_value :: "js_string \<Rightarrow> int" where
  "digits_value ds = foldl (\<lambda>a u. 10 * a + digit_value u) 0 ds"

text \<open>45 is the minus sign, 43 the plus sign.\<close>

definition parseInt :: "js_string \<Rightarrow> int option" where
  "parseInt s =
     (let t = dropWhile is_space s;
          neg = (t \<noteq> [] \<and> hd t = 45);
          u = (if t \<noteq> [] \<and> (hd t = 45 \<or> hd t = 43) then tl t else t);
          ds = takeWhile is_digit u
      in if ds = [] then None else Some (if neg then - digits_value ds else digits_value ds))"

text \<open>The code units of a string of ASCII characters.\<close>

definition units :: "string \<Rightarrow> js_string" where
  "units s = map of_char s"

section \<open>The store\<close>

text \<open>
  The two tables the queries of the handlers name, with the columns they name. A cell holds
  the JavaScript value that a SELECT hands back for it.
\<close>

record recipe_row =
  r_id :: int
  r_name :: jsval
  r_quantity_produced :: jsval
  r_npc_sell_price :: jsval

record material_row =
  m_recipe_id :: int
  m_material_name :: jsval
  m_quantity :: jsval
  m_material_type :: jsval
  m_default_npc_price :: jsval

text \<open>
  The columns that take a bound parameter of the request.
\<close>

datatype column =
    C_name
  | C_quantity_produced
  | C_npc_sell_price
  | C_material_name
  | C_quantity
  | C_material_type
  | C_default_npc_price

text \<open>
  The connection: the rows a read on it sees, the snapshot to which ROLLBACK returns
  while a transaction is open, and the number of calls the handlers have made to the
  database so far (a counter the source does not have; it makes
  "before any query" a statement about the state).

  \<open>store_as\<close> is what becomes of a bound parameter: the value that is read back from a
  cell of the column after the JavaScript value was bound to it. It is decided by the
  driver (which binds true as the integer 1 and an array or object as a text) and by the
  declared type of the column in schema.sql, which is not among the sources; the model
  takes it as a parameter of the connection, which no handler changes.
\<close>

record database =
  recipes :: "recipe_row list"
  recipe_materials :: "material_row list"
  saved :: "(recipe_row list \<times> material_row list) option"
  issued :: nat
  store_as :: "column \<Rightarrow> jsval \<Rightarrow> jsval"

datatype store_error = SqliteError

text \<open>
  Which calls of one request fail. Each field is one call of a handler that has an error
  callback: the handler's own \<^verbatim>\<open>db.run\<close> (INSERT, UPDATE or DELETE of the recipe), the
  DELETE of the old materials, the \<open>k\<close>-th \<^verbatim>\<open>stmtMaterial.run\<close> of the forEach,
  \<^verbatim>\<open>stmtMaterial.finalize\<close>, \<^verbatim>\<open>db.get\<close> and \<^verbatim>\<open>db.all\<close>. BEGIN, COMMIT and
  ROLLBACK are run without a callback and are taken to succeed. A statement that fails
  changes no row.
\<close>

record faults =
  run_fails :: bool
  delete_materials_fails :: bool
  material_fails :: "nat \<Rightarrow> bool"
  finalize_fails :: bool
  get_fails :: bool
  all_fails :: bool

definition no_faults :: faults where
  "no_faults = \<lparr>run_fails = False, delete_materials_fails = False,
     material_fails = (\<lambda>k. False), finalize_fails = False,
     get_fails = False, all_fails = False\<rparr>"

definition tick :: "database \<Rightarrow> database" where
  "tick db = db\<lparr>issued := Suc (issued db)\<rparr>"

text \<open>\<^verbatim>\<open>db.run('BEGIN TRANSACTION')\<close>, \<^verbatim>\<open>db.run('ROLLBACK')\<close>, \<^verbatim>\<open>db.run('COMMIT')\<close>\<close>

definition db_begin :: "database \<Rightarrow> database" where
  "db_begin db =
     tick (case saved db of
             None \<Rightarrow> db\<lparr>saved := Some (recipes db, recipe_materials db)\<rparr>
           | Some s \<Rightarrow> db)"

definition db_rollback :: "database \<Rightarrow> database" where
  "db_rollback db =
     tick (case saved db of
             None \<Rightarrow> db
           | Some s \<Rightarrow> db\<lparr>recipes := fst s, recipe_materials := snd s, saved := None\<rparr>)"

definition db_commit :: "database \<Rightarrow> database" where
  "db_commit db = tick (db\<lparr>saved := None\<rparr>)"

text \<open>
  Modelled from the spec: schema.sql, which declares the tables, is not among the sources.
  The recipe id is "unique, server-assigned" and the first recipe of an empty store gets
  id 1: the id of a new row is one more than the largest id in the table.
\<close>

definition next_rowid :: "recipe_row list \<Rightarrow> int" where
  "next_rowid rs = (if rs = [] then 1 else Max (set (map r_id rs)) + 1)"

text \<open>\<^verbatim>\<open>INSERT INTO recipes (name, quantity_produced, npc_sell_price) VALUES (?, ?, ?)\<close>;
  the result is \<^verbatim>\<open>this.lastID\<close>.\<close>

definition new_recipe ::
  "(column \<Rightarrow> jsval \<Rightarrow> jsval) \<Rightarrow> int \<Rightarrow> jsval \<Rightarrow> jsval \<Rightarrow> jsval \<Rightarrow> recipe_row" where
  "new_recipe c i name qty price =
     \<lparr>r_id = i, r_name = c C_name name, r_quantity_produced = c C_quantity_produced qty,
      r_npc_sell_price = c C_npc_sell_price price\<rparr>"

definition insert_recipe ::
  "bool \<Rightarrow> jsval \<Rightarrow> jsval \<Rightarrow> jsval \<Rightarrow> database \<Rightarrow> (store_error + int) \<times> database" where
  "insert_recipe fails name qty price db =
     (if fails then (Inl SqliteError, tick db)
      else let i = next_rowid (recipes db)
           in (Inr i,
               tick (db\<lparr>recipes := recipes db @
                 [new_recipe (store_as db) i name qty price]\<rparr>)))"

text \<open>\<^verbatim>\<open>INSERT INTO recipe_materials (recipe_id, material_name, quantity, material_type,
  default_npc_price) VALUES (?, ?, ?, ?, ?)\<close> with the parameters
  \<^verbatim>\<open>[recipeId, mat.material_name, mat.quantity, mat.material_type, mat.default_npc_price || 0]\<close>
  (the validation has passed, so \<^verbatim>\<open>mat\<close> is not null); the result is whether the
  callback got an error.\<close>

definition material_params ::
  "(column \<Rightarrow> jsval \<Rightarrow> jsval) \<Rightarrow> int \<Rightarrow> jsval \<Rightarrow> material_row" where
  "material_params c rid mat =
     \<lparr>m_recipe_id = rid,
      m_material_name = c C_material_name (member mat ''material_name''),
      m_quantity = c C_quantity (member mat ''quantity''),
      m_material_type = c C_material_type (member mat ''material_type''),
      m_default_npc_price =
        c C_default_npc_price (or_else (member mat ''default_npc_price'') (JNum 0))\<rparr>"

definition insert_material :: "bool \<Rightarrow> int \<Rightarrow> jsval \<Rightarrow> database \<Rightarrow> bool \<times> database" where
  "insert_material fails rid mat db =
     (if fails then (True, tick db)
      else (False,
            tick (db\<lparr>recipe_materials := recipe_materials db @
              [material_params (store_as db) rid mat]\<rparr>)))"

text \<open>
  \<^verbatim>\<open>materials.forEach(mat => { if (materialErrorOccurred) return; stmtMaterial.run(...) })\<close>:
  the flag is set only in the callbacks, which run after the forEach has returned, so every
  material is sent to the database; the result is the flag once all callbacks have run.
  \<open>k\<close> is the position of the next material.
\<close>

fun insert_materials ::
  "(nat \<Rightarrow> bool) \<Rightarrow> nat \<Rightarrow> int \<Rightarrow> jsval list \<Rightarrow> database \<Rightarrow> bool \<times> database" where
  "insert_materials mf k rid [] db = (False, db)"
| "insert_materials mf k rid (mat # mats) db =
     (let (e, db1) = insert_material (mf k) rid mat db;
          (es, db2) = insert_materials mf (Suc k) rid mats db1
      in (e \<or> es, db2))"

text \<open>\<^verbatim>\<open>stmtMaterial.finalize(cb)\<close>\<close>

definition finalize :: "bool \<Rightarrow> database \<Rightarrow> bool \<times> database" where
  "finalize fails db = (fails, tick db)"

text \<open>\<^verbatim>\<open>UPDATE recipes SET name = ?, quantity_produced = ?, npc_sell_price = ? WHERE id = ?\<close>;
  the result is \<^verbatim>\<open>this.changes\<close>, the number of rows the WHERE matched.\<close>

definition set_recipe ::
  "(column \<Rightarrow> jsval \<Rightarrow> jsval) \<Rightarrow> jsval \<Rightarrow> jsval \<Rightarrow> jsval \<Rightarrow> recipe_row \<Rightarrow> recipe_row" where
  "set_recipe c name qty price r =
     r\<lparr>r_name := c C_name name, r_quantity_produced := c C_quantity_produced qty,
       r_npc_sell_price := c C_npc_sell_price price\<rparr>"

definition update_recipe_row ::
  "bool \<Rightarrow> jsval \<Rightarrow> jsval \<Rightarrow> jsval \<Rightarrow> int \<Rightarrow> database \<Rightarrow> (store_error + nat) \<times> database" where
  "update_recipe_row fails name qty price i db =
     (if fails then (Inl SqliteError, tick db)
      else (Inr (length (filter (\<lambda>r. r_id r = i) (recipes db))),
            tick (db\<lparr>recipes :=
              map (\<lambda>r. if r_id r = i then set_recipe (store_as db) name qty price r else r)
                (recipes db)\<rparr>)))"

text \<open>\<^verbatim>\<open>DELETE FROM recipe_materials WHERE recipe_id = ?\<close>\<close>

definition delete_materials :: "bool \<Rightarrow> int \<Rightarrow> database \<Rightarrow> bool \<times> database" where
  "delete_materials fails i db =
     (if fails then (True, tick db)
      else (False,
            tick (db\<lparr>recipe_materials :=
              filter (\<lambda>m. m_recipe_id m \<noteq> i) (recipe_materials db)\<rparr>)))"

text \<open>
  Modelled from the spec: schema.sql, which declares the foreign key of recipe_materials,
  is not among the sources. "Deleting a Recipe cascades deletion of its Materials" (the
  handler's comment says the same of the schema's ON DELETE CASCADE): when a recipe row of
  id \<open>i\<close> is deleted, the material rows that reference \<open>i\<close> go with it.
\<close>

definition cascade :: "int \<Rightarrow> recipe_row list \<Rightarrow> material_row list \<Rightarrow> material_row list" where
  "cascade i rs ms =
     (if \<exists>r \<in> set rs. r_id r = i then filter (\<lambda>m. m_recipe_id m \<noteq> i) ms else ms)"

text \<open>\<^verbatim>\<open>DELETE FROM recipes WHERE id = ?\<close>; the result is \<^verbatim>\<open>this.changes\<close>, the number
  of recipe rows deleted.\<close>

definition delete_recipe_row ::
  "bool \<Rightarrow> int \<Rightarrow> database \<Rightarrow> (store_error + nat) \<times> database" where
  "delete_recipe_row fails i db =
     (if fails then (Inl SqliteError, tick db)
      else (Inr (length (filter (\<lambda>r. r_id r = i) (recipes db))),
            tick (db\<lparr>recipes := filter (\<lambda>r. r_id r \<noteq> i) (recipes db),
                      recipe_materials := cascade i (recipes db) (recipe_materials db)\<rparr>)))"

text \<open>\<^verbatim>\<open>SELECT id, name, quantity_produced, npc_sell_price FROM recipes WHERE id = ?\<close>
  through \<^verbatim>\<open>db.get\<close>: the first row, or undefined (\<open>None\<close>).\<close>

definition select_recipe ::
  "bool \<Rightarrow> int \<Rightarrow> database \<Rightarrow> (store_error + recipe_row option) \<times> database" where
  "select_recipe fails i db =
     (if fails then (Inl SqliteError, tick db)
      else (Inr (find (\<lambda>r. r_id r = i) (recipes db)), tick db))"

text \<open>\<^verbatim>\<open>SELECT material_name, quantity, material_type, default_npc_price FROM recipe_materials
  WHERE recipe_id = ?\<close> through \<^verbatim>\<open>db.all\<close>, the rows in the order of their insertion.\<close>

definition select_materials ::
  "bool \<Rightarrow> int \<Rightarrow> database \<Rightarrow> (store_error + material_row list) \<times> database" where
  "select_materials fails i db =
     (if fails then (Inl SqliteError, tick db)
      else (Inr (filter (\<lambda>m. m_recipe_id m = i) (recipe_materials db)), tick db))"

text \<open>
  Modelled from the spec: schema.sql, which declares the column name and its collation, is
  not among the sources. "Sorted by name ascending" is taken in the order SQLite has by
  default: NULL first, then the numbers in numeric order, then the texts, compared byte by
  byte. (A boolean is bound as 0 or 1; an array or object has no storage class of its own
  and is put last.) This is the key of ORDER BY name ASC.
\<close>

fun name_key :: "jsval \<Rightarrow> nat \<times> rat \<times> string" where
  "name_key JUndefined = (0, 0, [])"
| "name_key JNull = (0, 0, [])"
| "name_key (JBool b) = (1, if b then 1 else 0, [])"
| "name_key (JNum n) = (1, n, [])"
| "name_key (JStr s) = (2, 0, s)"
| "name_key (JArr xs) = (3, 0, [])"
| "name_key (JObj kvs) = (3, 0, [])"

text \<open>\<^verbatim>\<open>SELECT id, name, npc_sell_price FROM recipes ORDER BY name ASC\<close> through \<^verbatim>\<open>db.all\<close>\<close>

definition select_items ::
  "bool \<Rightarrow> database \<Rightarrow> (store_error + recipe_row list) \<times> database" where
  "select_items fails db =
     (if fails then (Inl SqliteError, tick db)
      else (Inr (sort_key (\<lambda>r. name_key (r_name r)) (recipes db)), tick db))"

text \<open>\<^verbatim>\<open>SELECT npc_sell_price FROM recipes WHERE name = ?\<close> through \<^verbatim>\<open>db.get\<close>\<close>

definition select_price_by_name ::
  "bool \<Rightarrow> string \<Rightarrow> database \<Rightarrow> (store_error + recipe_row option) \<times> database" where
  "select_price_by_name fails n db =
     (if fails then (Inl SqliteError, tick db)
      else (Inr (find (\<lambda>r. r_name r = store_as db C_name (JStr n)) (recipes db)), tick db))"

section \<open>The handlers\<close>

text \<open>
  A response is its status and, when it is a success, its JSON body. The text of an error
  message is not modelled.
\<close>

datatype response = Json nat jsval | Error nat

fun status :: "response \<Rightarrow> nat" where
  "status (Json n v) = n"
| "status (Error n) = n"

text \<open>The row objects that \<^verbatim>\<open>db.all\<close> and \<^verbatim>\<open>db.get\<close> hand to the callbacks: one property
  for each selected column.\<close>

definition item_json :: "recipe_row \<Rightarrow> jsval" where
  "item_json r =
     JObj [(''id'', JNum (of_int (r_id r))), (''name'', r_name r),
           (''npc_sell_price'', r_npc_sell_price r)]"

definition recipe_columns :: "recipe_row \<Rightarrow> (string \<times> jsval) list" where
  "recipe_columns r =
     [(''id'', JNum (of_int (r_id r))), (''name'', r_name r),
      (''quantity_produced'', r_quantity_produced r),
      (''npc_sell_price'', r_npc_sell_price r)]"

definition material_json :: "material_row \<Rightarrow> jsval" where
  "material_json m =
     JObj [(''material_name'', m_material_name m), (''quantity'', m_quantity m),
           (''material_type'', m_material_type m),
           (''default_npc_price'', m_default_npc_price m)]"

subsection \<open>GET /api/items\<close>

definition list_recipes :: "faults \<Rightarrow> database \<Rightarrow> response \<times> database" where
  "list_recipes f db =
     (case select_items (all_fails f) db of
        (Inl err, db1) \<Rightarrow> (Error 500, db1)
      | (Inr rows, db1) \<Rightarrow> (Json 200 (JArr (map item_json rows)), db1))"

subsection \<open>GET /api/items/:id/recipe\<close>

text \<open>What the handler does once \<^verbatim>\<open>itemId\<close> is a number.\<close>

definition get_recipe_at :: "faults \<Rightarrow> int \<Rightarrow> database \<Rightarrow> response \<times> database" where
  "get_recipe_at f itemId db =
     (case select_recipe (get_fails f) itemId db of
        (Inl err, db1) \<Rightarrow> (Error 500, db1)
      | (Inr None, db1) \<Rightarrow> (Error 404, db1)
      | (Inr (Some recipeRow), db1) \<Rightarrow>
          (case select_materials (all_fails f) itemId db1 of
             (Inl err, db2) \<Rightarrow> (Error 500, db2)
           | (Inr materialRows, db2) \<Rightarrow>
               (Json 200 (JObj (recipe_columns recipeRow @
                  [(''materials'', JArr (map material_json materialRows))])), db2)))"

definition get_recipe :: "faults \<Rightarrow> js_string \<Rightarrow> database \<Rightarrow> response \<times> database" where
  "get_recipe f id_param db =
     (case parseInt id_param of
        None \<Rightarrow> (Error 400, db)
      | Some itemId \<Rightarrow> get_recipe_at f itemId db)"

subsection \<open>GET /api/items/name/:name\<close>

definition get_price_by_name :: "faults \<Rightarrow> string \<Rightarrow> database \<Rightarrow> response \<times> database" where
  "get_price_by_name f itemName db =
     (case select_price_by_name (get_fails f) itemName db of
        (Inl err, db1) \<Rightarrow> (Error 500, db1)
      | (Inr (Some row), db1) \<Rightarrow>
          (Json 200 (JObj [(''npc_sell_price'', r_npc_sell_price row)]), db1)
      | (Inr None, db1) \<Rightarrow> (Error 404, db1))"

subsection \<open>The validation of POST and PUT\<close>

datatype js_error = TypeError

text \<open>\<^verbatim>\<open>mat => !mat.material_name || !mat.quantity || !mat.material_type\<close>\<close>

definition material_invalid :: "jsval \<Rightarrow> js_error + bool" where
  "material_invalid mat =
     (if nullish mat then Inl TypeError
      else Inr (\<not> truthy (member mat ''material_name'') \<or> \<not> truthy (member mat ''quantity'')
                \<or> \<not> truthy (member mat ''material_type'')))"

text \<open>\<^verbatim>\<open>materials.some(...)\<close>: the entries in order, up to the first for which the
  callback is true or throws.\<close>

fun some_invalid :: "jsval list \<Rightarrow> js_error + bool" where
  "some_invalid [] = Inr False"
| "some_invalid (mat # mats) =
     (case material_invalid mat of
        Inl e \<Rightarrow> Inl e
      | Inr True \<Rightarrow> Inr True
      | Inr False \<Rightarrow> some_invalid mats)"

text \<open>
  The two validation lines, the same in both handlers. \<open>None\<close>: the request goes on to
  the store. An exception thrown in a handler reaches the error middleware, which answers 500.
\<close>

definition validate :: "body \<Rightarrow> response option" where
  "validate b =
     (let name = field b ''name''; quantity_produced = field b ''quantity_produced'';
          materials = field b ''materials''
      in if \<not> truthy name \<or> \<not> truthy quantity_produced \<or> \<not> truthy materials
            \<or> \<not> isArray materials
         then Some (Error 400)
         else (case some_invalid (elements materials) of
                 Inl e \<Rightarrow> Some (Error 500)
               | Inr True \<Rightarrow> Some (Error 400)
               | Inr False \<Rightarrow> None))"

subsection \<open>POST /api/items\<close>

definition created :: "int \<Rightarrow> jsval" where
  "created recipeId =
     JObj [(''message'', JStr ''Receita criada com sucesso!''),
           (''id'', JNum (of_int recipeId))]"

definition create_recipe :: "faults \<Rightarrow> body \<Rightarrow> database \<Rightarrow> response \<times> database" where
  "create_recipe f b db =
     (case validate b of
        Some r \<Rightarrow> (r, db)
      | None \<Rightarrow>
          (case insert_recipe (run_fails f) (field b ''name'') (field b ''quantity_produced'')
                  (or_else (field b ''npc_sell_price'') (JNum 0)) (db_begin db) of
             (Inl err, db1) \<Rightarrow> (Error 500, db_rollback db1)
           | (Inr recipeId, db1) \<Rightarrow>
               (case insert_materials (material_fails f) 0 recipeId
                       (elements (field b ''materials'')) db1 of
                  (runErr, db2) \<Rightarrow>
                    (case finalize (finalize_fails f) db2 of
                       (finalizeErr, db3) \<Rightarrow>
                         if runErr \<or> finalizeErr then (Error 500, db_rollback db3)
                         else (Json 201 (created recipeId), db_commit db3)))))"

subsection \<open>PUT /api/items/:id\<close>

definition updated :: "int \<Rightarrow> jsval" where
  "updated itemId =
     JObj [(''message'', JStr ''Receita atualizada com sucesso!''),
           (''id'', JNum (of_int itemId))]"

text \<open>What the handler does once \<^verbatim>\<open>itemId\<close> is a number.\<close>

definition update_recipe_at :: "faults \<Rightarrow> int \<Rightarrow> body \<Rightarrow> database \<Rightarrow> response \<times> database" where
  "update_recipe_at f itemId b db =
     (case validate b of
        Some r \<Rightarrow> (r, db)
      | None \<Rightarrow>
          (case update_recipe_row (run_fails f) (field b ''name'')
                  (field b ''quantity_produced'')
                  (or_else (field b ''npc_sell_price'') (JNum 0)) itemId (db_begin db) of
             (Inl err, db1) \<Rightarrow> (Error 500, db_rollback db1)
           | (Inr changes, db1) \<Rightarrow>
               if changes = 0 then (Error 404, db_rollback db1)
               else
                 (case delete_materials (delete_materials_fails f) itemId db1 of
                    (True, db2) \<Rightarrow> (Error 500, db_rollback db2)
                  | (False, db2) \<Rightarrow>
                      (case insert_materials (material_fails f) 0 itemId
                              (elements (field b ''materials'')) db2 of
                         (runErr, db3) \<Rightarrow>
                           (case finalize (finalize_fails f) db3 of
                              (finalizeErr, db4) \<Rightarrow>
                                if runErr \<or> finalizeErr then (Error 500, db_rollback db4)
                                else (Json 200 (updated itemId), db_commit db4))))))"

definition update_recipe ::
  "faults \<Rightarrow> js_string \<Rightarrow> body \<Rightarrow> database \<Rightarrow> response \<times> database" where
  "update_recipe f id_param b db =
     (case parseInt id_param of
        None \<Rightarrow> (Error 400, db)
      | Some itemId \<Rightarrow> update_recipe_at f itemId b db)"

subsection \<open>DELETE /api/items/:id\<close>

definition deleted :: jsval where
  "deleted = JObj [(''message'', JStr ''Receita deletada com sucesso!'')]"

definition delete_recipe_at :: "faults \<Rightarrow> int \<Rightarrow> database \<Rightarrow> response \<times> database" where
  "delete_recipe_at f itemId db =
     (case delete_recipe_row (run_fails f) itemId db of
        (Inl err, db1) \<Rightarrow> (Error 500, db1)
      | (Inr changes, db1) \<Rightarrow>
          if changes = 0 then (Error 404, db1) else (Json 200 deleted, db1))"

definition delete_recipe :: "faults \<Rightarrow> js_string \<Rightarrow> database \<Rightarrow> response \<times> database" where
  "delete_recipe f id_param db =
     (case parseInt id_param of
        None \<Rightarrow> (Error 400, db)
      | Some itemId \<Rightarrow> delete_recipe_at f itemId db)"

text \<open>The store before the first request, on a connection that stores as \<open>c\<close> says.\<close>

definition empty_db :: "(column \<Rightarrow> jsval \<Rightarrow> jsval) \<Rightarrow> database" where
  "empty_db c =
     \<lparr>recipes = [], recipe_materials = [], saved = None, issued = 0, store_as = c\<rparr>"

section \<open>What the properties are stated with\<close>

text \<open>What a read on the connection sees.\<close>

definition visible :: "database \<Rightarrow> recipe_row list \<times> material_row list" where
  "visible db = (recipes db, recipe_materials db)"

text \<open>The JSON a response carries.\<close>

fun payload :: "response \<Rightarrow> jsval" where
  "payload (Json n v) = v"
| "payload (Error n) = JUndefined"

text \<open>"Every Material row references an existing Recipe."\<close>

definition references_hold :: "database \<Rightarrow> bool" where
  "references_hold db =
     (\<forall>m\<in>set (recipe_materials db). \<exists>r\<in>set (recipes db). r_id r = m_recipe_id m)"

text \<open>A numeric string, in the words of the specification: decimal digits and nothing else.\<close>

definition numeric_string :: "js_string \<Rightarrow> bool" where
  "numeric_string s = (s \<noteq> [] \<and> list_all is_digit s)"

text \<open>
  The data model of the specification: a name or a type is a non-empty string, a quantity
  a positive number, a price a non-negative number.
\<close>

fun nonempty_text :: "jsval \<Rightarrow> bool" where
  "nonempty_text (JStr s) = (s \<noteq> [])"
| "nonempty_text v = False"

fun positive :: "jsval \<Rightarrow> bool" where
  "positive (JNum q) = (0 < q)"
| "positive v = False"

fun non_negative :: "jsval \<Rightarrow> bool" where
  "non_negative (JNum p) = (0 \<le> p)"
| "non_negative v = False"

fun number_or_absent :: "jsval \<Rightarrow> bool" where
  "number_or_absent (JNum p) = True"
| "number_or_absent JUndefined = True"
| "number_or_absent JNull = True"
| "number_or_absent v = False"

text \<open>
  The requests of that data model that pass the validation, and more: a quantity may be
  any number other than 0, a price any number, and a price may be absent (or null). A
  material is an object that has a material_name, a quantity and a material_type of these
  kinds and, if any, a default_npc_price that is a number; it may have other properties.
\<close>

fun number_set :: "jsval \<Rightarrow> bool" where
  "number_set (JNum q) = (q \<noteq> 0)"
| "number_set v = False"

definition valid_material :: "jsval \<Rightarrow> bool" where
  "valid_material m =
     (nonempty_text (member m ''material_name'') \<and> number_set (member m ''quantity'')
      \<and> nonempty_text (member m ''material_type'')
      \<and> number_or_absent (member m ''default_npc_price''))"

text \<open>A price as it is read back: the number supplied, 0 when none was.\<close>

fun price_read_back :: "jsval \<Rightarrow> jsval" where
  "price_read_back (JNum p) = JNum p"
| "price_read_back v = JNum 0"

text \<open>What is read back of a material of the request: its four fields, the price as above.\<close>

definition material_read_back :: "jsval \<Rightarrow> jsval" where
  "material_read_back m =
     JObj [(''material_name'', member m ''material_name''),
           (''quantity'', member m ''quantity''),
           (''material_type'', member m ''material_type''),
           (''default_npc_price'', price_read_back (member m ''default_npc_price''))]"

text \<open>
  Modelled from the spec: schema.sql, which declares the types of the columns, is not among
  the sources. In the data model name, material_name and material_type are strings, and
  quantity_produced, quantity, npc_sell_price and default_npc_price are numbers: a string
  bound to a string column and a number bound to a number column are read back as they
  were bound. Nothing is said of a value of another type.
\<close>

definition typed_columns :: "(column \<Rightarrow> jsval \<Rightarrow> jsval) \<Rightarrow> bool" where
  "typed_columns c =
     ((\<forall>s. c C_name (JStr s) = JStr s \<and> c C_material_name (JStr s) = JStr s
           \<and> c C_material_type (JStr s) = JStr s)
      \<and> (\<forall>n. c C_quantity_produced (JNum n) = JNum n \<and> c C_quantity (JNum n) = JNum n
              \<and> c C_npc_sell_price (JNum n) = JNum n
              \<and> c C_default_npc_price (JNum n) = JNum n))"

text \<open>
  A conversion for the examples: every value is read back as it was bound. The examples
  bind strings to the string columns and numbers to the number columns only.
\<close>

definition as_bound :: "column \<Rightarrow> jsval \<Rightarrow> jsval" where
  "as_bound c v = v"

text \<open>
  The concrete scenario of the specification: the request that creates the Sword, and the
  store once it has been created in the empty store.
\<close>

definition iron :: jsval where
  "iron = JObj [(''material_name'', JStr ''Iron''), (''quantity'', JNum 3),
                (''material_type'', JStr ''ore''), (''default_npc_price'', JNum 5)]"

definition sword :: body where
  "sword = [(''name'', JStr ''Sword''), (''quantity_produced'', JNum 1),
            (''npc_sell_price'', JNum 50), (''materials'', JArr [iron])]"

definition sword_store :: database where
  "sword_store =
     \<lparr>recipes = [\<lparr>r_id = 1, r_name = JStr ''Sword'', r_quantity_produced = JNum 1,
                  r_npc_sell_price = JNum 50\<rparr>],
      recipe_materials = [\<lparr>m_recipe_id = 1, m_material_name = JStr ''Iron'',
                           m_quantity = JNum 3, m_material_type = JStr ''ore'',
                           m_default_npc_price = JNum 5\<rparr>],
      saved = None, issued = 5, store_as = as_bound\<rparr>"

lemmas eval_defs =
  or_else_def field_def parseInt_def is_space_def is_digit_def digit_value_def
  digits_value_def units_def no_faults_def tick_def db_begin_def db_rollback_def db_commit_def
  next_rowid_def new_recipe_def insert_recipe_def material_params_def insert_material_def
  finalize_def set_recipe_def update_recipe_row_def delete_materials_def cascade_def
  delete_recipe_row_def select_recipe_def select_materials_def select_items_def
  select_price_by_name_def item_json_def recipe_columns_def material_json_def
  list_recipes_def get_recipe_at_def get_recipe_def get_price_by_name_def
  material_invalid_def validate_def created_def create_recipe_def updated_def
  update_recipe_at_def update_recipe_def deleted_def delete_recipe_at_def delete_recipe_def
  empty_db_def visible_def as_bound_def iron_def sword_def sword_store_def

section \<open>The material loop\<close>

lemma r_id_new_recipe [simp]: "r_id (new_recipe c i n q p) = i"
  by (simp add: new_recipe_def)

lemma r_id_set_recipe [simp]: "r_id (set_recipe c n q p r) = r_id r"
  by (simp add: set_recipe_def)

lemma m_recipe_id_material_params [simp]: "m_recipe_id (material_params c rid mat) = rid"
  by (simp add: material_params_def)

lemma insert_materials_frame:
  "insert_materials mf k rid mats db = (e, db') \<Longrightarrow>
     saved db' = saved db \<and> recipes db' = recipes db"
  by (induction mats arbitrary: k db e db')
     (auto simp: insert_material_def tick_def split: prod.splits if_splits)

lemma saved_insert_materials [simp]:
  "saved (snd (insert_materials mf k rid mats db)) = saved db"
  using insert_materials_frame [of mf k rid mats db]
  by (cases "insert_materials mf k rid mats db") simp

lemma recipes_insert_materials [simp]:
  "recipes (snd (insert_materials mf k rid mats db)) = recipes db"
  using insert_materials_frame [of mf k rid mats db]
  by (cases "insert_materials mf k rid mats db") simp

lemma store_as_insert_materials [simp]:
  "store_as (snd (insert_materials mf k rid mats db)) = store_as db"
  by (induction mats arbitrary: k db)
     (auto simp: insert_material_def tick_def case_prod_beta)

lemma issued_insert_materials [simp]:
  "issued (snd (insert_materials mf k rid mats db)) = issued db + length mats"
  by (induction mats arbitrary: k db)
     (auto simp: insert_material_def tick_def case_prod_beta)

text \<open>The flag is raised exactly when one of the inserts fails.\<close>

lemma fst_insert_materials:
  "fst (insert_materials mf k rid mats db) = (\<exists>j<length mats. mf (k + j))"
proof (induction mats arbitrary: k db)
  case Nil
  then show ?case by simp
next
  case (Cons mat mats)
  have "(\<exists>j<Suc (length mats). mf (k + j)) = (mf k \<or> (\<exists>j<length mats. mf (Suc k + j)))"
    by (auto simp: less_Suc_eq_0_disj)
  with Cons show ?case
    by (simp add: case_prod_beta insert_material_def)
qed

lemma materials_insert_materials:
  "\<not> fst (insert_materials mf k rid mats db) \<Longrightarrow>
     recipe_materials (snd (insert_materials mf k rid mats db)) =
       recipe_materials db @ map (material_params (store_as db) rid) mats"
  by (induction mats arbitrary: k db)
     (auto simp: insert_material_def tick_def case_prod_beta split: if_splits)

section \<open>The responses of POST and PUT\<close>

lemma validate_range: "validate b = Some r \<Longrightarrow> r = Error 400 \<or> r = Error 500"
  by (auto simp: validate_def Let_def split: if_splits sum.splits bool.splits)

lemma create_response:
  "fst (create_recipe f b db) =
     (case validate b of
        Some r \<Rightarrow> r
      | None \<Rightarrow>
          if run_fails f \<or> (\<exists>k<length (elements (field b ''materials'')). material_fails f k)
             \<or> finalize_fails f
          then Error 500 else Json 201 (created (next_rowid (recipes db))))"
proof (cases "validate b")
  case (Some r)
  then show ?thesis by (simp add: create_recipe_def)
next
  case None
  show ?thesis
  proof (cases "run_fails f")
    case True
    with None show ?thesis by (simp add: create_recipe_def insert_recipe_def)
  next
    case False
    with None show ?thesis
      by (simp add: create_recipe_def insert_recipe_def finalize_def Let_def case_prod_beta
            fst_insert_materials db_begin_def tick_def split: option.splits)
  qed
qed

lemma update_response:
  "fst (update_recipe_at f i b db) =
     (case validate b of
        Some r \<Rightarrow> r
      | None \<Rightarrow>
          if run_fails f then Error 500
          else if \<forall>r\<in>set (recipes db). r_id r \<noteq> i then Error 404
          else if delete_materials_fails f
                  \<or> (\<exists>k<length (elements (field b ''materials'')). material_fails f k)
                  \<or> finalize_fails f
          then Error 500 else Json 200 (updated i))"
proof (cases "validate b")
  case (Some r)
  then show ?thesis by (simp add: update_recipe_at_def)
next
  case None
  show ?thesis
  proof (cases "run_fails f")
    case True
    with None show ?thesis by (simp add: update_recipe_at_def update_recipe_row_def)
  next
    case False
    have len: "(length (filter (\<lambda>r. r_id r = i) (recipes db)) = 0)
        = (\<forall>r\<in>set (recipes db). r_id r \<noteq> i)"
      by (auto simp: filter_empty_conv)
    show ?thesis
    proof (cases "delete_materials_fails f")
      case True
      with None False len show ?thesis
        by (simp add: update_recipe_at_def update_recipe_row_def delete_materials_def
            db_begin_def tick_def split: option.splits)
    next
      case nd: False
      with None False len show ?thesis
        by (auto simp: update_recipe_at_def update_recipe_row_def delete_materials_def
            finalize_def case_prod_beta fst_insert_materials db_begin_def tick_def
            split: option.splits)
    qed
  qed
qed

section \<open>Rollback\<close>

lemma create_failure_unchanged:
  assumes "saved db = None" and "status (fst (create_recipe f b db)) \<noteq> 201"
  shows "visible (snd (create_recipe f b db)) = visible db
       \<and> saved (snd (create_recipe f b db)) = None"
  using assms
  by (auto simp: visible_def create_recipe_def db_begin_def insert_recipe_def finalize_def
        tick_def db_rollback_def case_prod_beta Let_def
      split: option.splits sum.splits if_splits)

lemma update_failure_unchanged:
  assumes "saved db = None" and "status (fst (update_recipe_at f i b db)) \<noteq> 200"
  shows "visible (snd (update_recipe_at f i b db)) = visible db
       \<and> saved (snd (update_recipe_at f i b db)) = None"
  using assms
  by (auto simp: visible_def update_recipe_at_def db_begin_def update_recipe_row_def
        delete_materials_def finalize_def tick_def db_rollback_def case_prod_beta
      split: option.splits sum.splits if_splits bool.splits)

text \<open>
  Claim C1. When a step of create_recipe or update_recipe fails after the first write (a
  material insert, the finalize, for update also the delete of the old materials), the
  request is answered 500 and the transaction is rolled back: whatever response other than
  the success is given, a read after the request sees the rows it saw before it, the
  recipe's earlier fields and materials included, and no transaction is left open.
\<close>

theorem failed_write_is_rolled_back:
  assumes "saved db = None"
  shows "(status (fst (create_recipe f b db)) \<noteq> 201 \<longrightarrow>
            visible (snd (create_recipe f b db)) = visible db
            \<and> saved (snd (create_recipe f b db)) = None)
       \<and> (status (fst (update_recipe f s b db)) \<noteq> 200 \<longrightarrow>
            visible (snd (update_recipe f s b db)) = visible db
            \<and> saved (snd (update_recipe f s b db)) = None)
       \<and> (validate b = None
            \<and> ((\<exists>k<length (elements (field b ''materials'')). material_fails f k)
                \<or> finalize_fails f) \<longrightarrow>
            fst (create_recipe f b db) = Error 500)
       \<and> (validate b = None \<and> parseInt s = Some i \<and> (\<exists>r\<in>set (recipes db). r_id r = i)
            \<and> (delete_materials_fails f
                \<or> (\<exists>k<length (elements (field b ''materials'')). material_fails f k)
                \<or> finalize_fails f) \<longrightarrow>
            fst (update_recipe f s b db) = Error 500)"
proof -
  have c: "status (fst (create_recipe f b db)) \<noteq> 201 \<longrightarrow>
      visible (snd (create_recipe f b db)) = visible db \<and> saved (snd (create_recipe f b db)) = None"
    using assms by (simp add: create_failure_unchanged)
  have u: "status (fst (update_recipe f s b db)) \<noteq> 200 \<longrightarrow>
      visible (snd (update_recipe f s b db)) = visible db
      \<and> saved (snd (update_recipe f s b db)) = None"
  proof (cases "parseInt s")
    case None
    with assms show ?thesis by (simp add: update_recipe_def)
  next
    case (Some j)
    with assms update_failure_unchanged [of db f j b] show ?thesis
      by (simp add: update_recipe_def)
  qed
  have cf: "validate b = None
      \<and> ((\<exists>k<length (elements (field b ''materials'')). material_fails f k)
          \<or> finalize_fails f) \<longrightarrow>
      fst (create_recipe f b db) = Error 500"
    by (auto simp: create_response)
  have uf: "validate b = None \<and> parseInt s = Some i \<and> (\<exists>r\<in>set (recipes db). r_id r = i)
      \<and> (delete_materials_fails f
          \<or> (\<exists>k<length (elements (field b ''materials'')). material_fails f k)
          \<or> finalize_fails f) \<longrightarrow>
      fst (update_recipe f s b db) = Error 500"
    by (auto simp: update_recipe_def update_response)
  from c u cf uf show ?thesis by (intro conjI)
qed

theorem failed_write_is_rolled_back_witness:
  "fst (create_recipe (no_faults\<lparr>material_fails := (\<lambda>k. k = 0)\<rparr>) sword (empty_db as_bound)) = Error 500
   \<and> visible (snd (create_recipe (no_faults\<lparr>material_fails := (\<lambda>k. k = 0)\<rparr>) sword (empty_db as_bound)))
       = ([], [])
   \<and> fst (get_recipe no_faults (units ''1'')
        (snd (create_recipe (no_faults\<lparr>material_fails := (\<lambda>k. k = 0)\<rparr>) sword (empty_db as_bound))))
       = Error 404
   \<and> fst (update_recipe (no_faults\<lparr>material_fails := (\<lambda>k. k = 1)\<rparr>) (units ''1'')
        [(''name'', JStr ''Dagger''), (''quantity_produced'', JNum 2),
         (''materials'', JArr [iron, iron])]
        sword_store) = Error 500
   \<and> visible (snd (update_recipe (no_faults\<lparr>material_fails := (\<lambda>k. k = 1)\<rparr>) (units ''1'')
        [(''name'', JStr ''Dagger''), (''quantity_produced'', JNum 2),
         (''materials'', JArr [iron, iron])]
        sword_store)) = visible sword_store"
  using
    failed_write_is_rolled_back [of "empty_db as_bound" "no_faults\<lparr>material_fails := (\<lambda>k. k = 0)\<rparr>"
      sword "units ''1''" 1]
    failed_write_is_rolled_back [of sword_store "no_faults\<lparr>material_fails := (\<lambda>k. k = 1)\<rparr>"
      "[(''name'', JStr ''Dagger''), (''quantity_produced'', JNum 2),
        (''materials'', JArr [iron, iron])]"
      "units ''1''" 1]
  by (simp add: eval_defs)

section \<open>Reads and successful writes\<close>

lemma reads_keep_rows:
  "visible (snd (list_recipes f db)) = visible db \<and> saved (snd (list_recipes f db)) = saved db"
  "visible (snd (get_recipe f s db)) = visible db \<and> saved (snd (get_recipe f s db)) = saved db"
  "visible (snd (get_price_by_name f n db)) = visible db
     \<and> saved (snd (get_price_by_name f n db)) = saved db"
  by (auto simp: visible_def list_recipes_def get_recipe_def get_recipe_at_def get_price_by_name_def
        select_items_def select_recipe_def select_materials_def select_price_by_name_def tick_def
      split: option.splits)

text \<open>What a read answers depends on the rows and on the conversion alone.\<close>

lemma reads_see_rows:
  assumes "visible db' = visible db" and "store_as db' = store_as db"
  shows "fst (list_recipes f db') = fst (list_recipes f db)"
    and "fst (get_recipe f s db') = fst (get_recipe f s db)"
    and "fst (get_price_by_name f n db') = fst (get_price_by_name f n db)"
  using assms
  by (auto simp: visible_def list_recipes_def get_recipe_def get_recipe_at_def
        get_price_by_name_def select_items_def select_recipe_def select_materials_def
        select_price_by_name_def tick_def
      split: option.splits)

lemma references_rows: "visible db' = visible db \<Longrightarrow> references_hold db' = references_hold db"
  by (simp add: visible_def references_hold_def)

lemma create_succeeds:
  assumes "saved db = None" and "validate b = None" and "\<not> run_fails f" and "\<not> finalize_fails f"
    and "\<forall>k<length (elements (field b ''materials'')). \<not> material_fails f k"
  shows "fst (create_recipe f b db) = Json 201 (created (next_rowid (recipes db)))"
    and "recipes (snd (create_recipe f b db)) = recipes db @
           [new_recipe (store_as db) (next_rowid (recipes db)) (field b ''name'')
              (field b ''quantity_produced'')
              (or_else (field b ''npc_sell_price'') (JNum 0))]"
    and "recipe_materials (snd (create_recipe f b db)) = recipe_materials db @
           map (material_params (store_as db) (next_rowid (recipes db)))
             (elements (field b ''materials''))"
    and "saved (snd (create_recipe f b db)) = None"
proof -
  have nf: "\<And>rid d. fst (insert_materials (material_fails f) 0 rid
      (elements (field b ''materials'')) d) = False"
    using assms(5) by (simp add: fst_insert_materials)
  note defs = create_recipe_def insert_recipe_def finalize_def case_prod_beta Let_def
    materials_insert_materials db_begin_def db_commit_def tick_def
  show "fst (create_recipe f b db) = Json 201 (created (next_rowid (recipes db)))"
    using assms(1-4) nf by (simp add: defs)
  show "recipes (snd (create_recipe f b db)) = recipes db @
           [new_recipe (store_as db) (next_rowid (recipes db)) (field b ''name'')
              (field b ''quantity_produced'')
              (or_else (field b ''npc_sell_price'') (JNum 0))]"
    using assms(1-4) nf by (simp add: defs)
  show "recipe_materials (snd (create_recipe f b db)) = recipe_materials db @
           map (material_params (store_as db) (next_rowid (recipes db)))
             (elements (field b ''materials''))"
    using assms(1-4) nf by (simp add: defs)
  show "saved (snd (create_recipe f b db)) = None"
    using assms(1-4) nf by (simp add: defs)
qed

lemma update_succeeds:
  assumes "saved db = None" and "validate b = None" and "\<not> run_fails f"
    and "\<exists>r\<in>set (recipes db). r_id r = i" and "\<not> delete_materials_fails f"
    and "\<not> finalize_fails f"
    and "\<forall>k<length (elements (field b ''materials'')). \<not> material_fails f k"
  shows "recipes (snd (update_recipe_at f i b db)) =
           map (\<lambda>r. if r_id r = i
                     then set_recipe (store_as db) (field b ''name'')
                            (field b ''quantity_produced'')
                            (or_else (field b ''npc_sell_price'') (JNum 0)) r
                     else r) (recipes db)"
    and "recipe_materials (snd (update_recipe_at f i b db)) =
           filter (\<lambda>m. m_recipe_id m \<noteq> i) (recipe_materials db) @
           map (material_params (store_as db) i) (elements (field b ''materials''))"
    and "saved (snd (update_recipe_at f i b db)) = None"
proof -
  have nf: "\<And>rid d. fst (insert_materials (material_fails f) 0 rid
      (elements (field b ''materials'')) d) = False"
    using assms(7) by (simp add: fst_insert_materials)
  have ne: "filter (\<lambda>r. r_id r = i) (recipes db) \<noteq> []"
    using assms(4) by (auto simp: filter_empty_conv)
  note defs = update_recipe_at_def update_recipe_row_def delete_materials_def finalize_def
    case_prod_beta materials_insert_materials db_begin_def db_commit_def tick_def
  show "recipes (snd (update_recipe_at f i b db)) =
           map (\<lambda>r. if r_id r = i
                     then set_recipe (store_as db) (field b ''name'')
                            (field b ''quantity_produced'')
                            (or_else (field b ''npc_sell_price'') (JNum 0)) r
                     else r) (recipes db)"
    using assms(1,2,3,5,6) nf ne by (simp add: defs)
  show "recipe_materials (snd (update_recipe_at f i b db)) =
           filter (\<lambda>m. m_recipe_id m \<noteq> i) (recipe_materials db) @
           map (material_params (store_as db) i) (elements (field b ''materials''))"
    using assms(1,2,3,5,6) nf ne by (simp add: defs)
  show "saved (snd (update_recipe_at f i b db)) = None"
    using assms(1,2,3,5,6) nf ne by (simp add: defs)
qed

section \<open>The references of the material rows\<close>

lemma references_step:
  assumes "references_hold db"
    and ids: "r_id ` set (recipes db) \<subseteq> r_id ` set (recipes db')"
    and ms: "\<And>m. m \<in> set (recipe_materials db') \<Longrightarrow>
        m \<in> set (recipe_materials db) \<or> m_recipe_id m \<in> r_id ` set (recipes db')"
  shows "references_hold db'"
  unfolding references_hold_def
proof
  fix m assume "m \<in> set (recipe_materials db')"
  then consider "m \<in> set (recipe_materials db)" | "m_recipe_id m \<in> r_id ` set (recipes db')"
    using ms by blast
  then have "m_recipe_id m \<in> r_id ` set (recipes db')"
  proof cases
    case 1
    with assms(1) have "m_recipe_id m \<in> r_id ` set (recipes db)"
      unfolding references_hold_def by force
    with ids show ?thesis by blast
  qed
  then show "\<exists>r\<in>set (recipes db'). r_id r = m_recipe_id m"
    by force
qed

lemma create_keeps_references:
  assumes "saved db = None" and "references_hold db"
  shows "references_hold (snd (create_recipe f b db)) \<and> saved (snd (create_recipe f b db)) = None"
proof (cases "status (fst (create_recipe f b db)) = 201")
  case False
  with assms create_failure_unchanged [of db f b]
    references_rows [of "snd (create_recipe f b db)" db] show ?thesis
    by simp
next
  case True
  have v: "validate b = None"
  proof (cases "validate b")
    case (Some r)
    with True validate_range [of b r] show ?thesis
      by (auto simp: create_response)
  qed simp
  with True have ok: "\<not> run_fails f" "\<not> finalize_fails f"
      "\<forall>k<length (elements (field b ''materials'')). \<not> material_fails f k"
    by (auto simp: create_response split: if_splits)
  note r = create_succeeds(2) [OF assms(1) v ok]
  note m = create_succeeds(3) [OF assms(1) v ok]
  have "references_hold (snd (create_recipe f b db))"
  proof (rule references_step [OF assms(2)])
    show "r_id ` set (recipes db) \<subseteq> r_id ` set (recipes (snd (create_recipe f b db)))"
      unfolding r by auto
  next
    fix m' assume "m' \<in> set (recipe_materials (snd (create_recipe f b db)))"
    then have "m' \<in> set (recipe_materials db) \<or> m_recipe_id m' = next_rowid (recipes db)"
      unfolding m by (auto simp: material_params_def)
    then show "m' \<in> set (recipe_materials db)
        \<or> m_recipe_id m' \<in> r_id ` set (recipes (snd (create_recipe f b db)))"
      unfolding r by auto
  qed
  with create_succeeds(4) [OF assms(1) v ok] show ?thesis by simp
qed

lemma ids_after_update:
  "map r_id (map (\<lambda>r. if r_id r = i then set_recipe c a q p r else r) rs) = map r_id rs"
  by (induction rs) auto

lemma update_keeps_references:
  assumes "saved db = None" and "references_hold db"
  shows "references_hold (snd (update_recipe_at f i b db))
       \<and> saved (snd (update_recipe_at f i b db)) = None"
proof (cases "status (fst (update_recipe_at f i b db)) = 200")
  case False
  with assms update_failure_unchanged [of db f i b]
    references_rows [of "snd (update_recipe_at f i b db)" db] show ?thesis
    by simp
next
  case True
  have v: "validate b = None"
  proof (cases "validate b")
    case (Some r)
    with True validate_range [of b r] show ?thesis
      by (auto simp: update_response)
  qed simp
  with True have ok: "\<not> run_fails f" "\<exists>r\<in>set (recipes db). r_id r = i"
      "\<not> delete_materials_fails f" "\<not> finalize_fails f"
      "\<forall>k<length (elements (field b ''materials'')). \<not> material_fails f k"
    by (auto simp: update_response split: if_splits)
  note r = update_succeeds(1) [OF assms(1) v ok]
  note m = update_succeeds(2) [OF assms(1) v ok]
  have ids: "r_id ` set (recipes (snd (update_recipe_at f i b db))) = r_id ` set (recipes db)"
    unfolding r set_map [symmetric] ids_after_update ..
  have "references_hold (snd (update_recipe_at f i b db))"
  proof (rule references_step [OF assms(2)])
    show "r_id ` set (recipes db) \<subseteq> r_id ` set (recipes (snd (update_recipe_at f i b db)))"
      using ids by simp
  next
    fix m' assume "m' \<in> set (recipe_materials (snd (update_recipe_at f i b db)))"
    then have "m' \<in> set (recipe_materials db) \<or> m_recipe_id m' = i"
      unfolding m by (auto simp: material_params_def)
    with ok(2) show "m' \<in> set (recipe_materials db)
        \<or> m_recipe_id m' \<in> r_id ` set (recipes (snd (update_recipe_at f i b db)))"
      unfolding ids by auto
  qed
  with update_succeeds(3) [OF assms(1) v ok] show ?thesis by simp
qed

lemma delete_recipe_at_cases:
  "run_fails f \<Longrightarrow> delete_recipe_at f i db = (Error 500, tick db)"
  "\<not> run_fails f \<Longrightarrow> \<forall>r\<in>set (recipes db). r_id r \<noteq> i \<Longrightarrow>
     delete_recipe_at f i db = (Error 404, tick db)"
  "\<not> run_fails f \<Longrightarrow> \<exists>r\<in>set (recipes db). r_id r = i \<Longrightarrow>
     delete_recipe_at f i db =
       (Json 200 deleted,
        tick (db\<lparr>recipes := filter (\<lambda>r. r_id r \<noteq> i) (recipes db),
                  recipe_materials := filter (\<lambda>m. m_recipe_id m \<noteq> i) (recipe_materials db)\<rparr>))"
proof -
  show "run_fails f \<Longrightarrow> delete_recipe_at f i db = (Error 500, tick db)"
    by (simp add: delete_recipe_at_def delete_recipe_row_def)
next
  assume a: "\<not> run_fails f" "\<forall>r\<in>set (recipes db). r_id r \<noteq> i"
  then have "filter (\<lambda>r. r_id r = i) (recipes db) = []"
      "filter (\<lambda>r. r_id r \<noteq> i) (recipes db) = recipes db"
    by (auto simp: filter_empty_conv filter_id_conv)
  with a show "delete_recipe_at f i db = (Error 404, tick db)"
    by (simp add: delete_recipe_at_def delete_recipe_row_def cascade_def)
next
  assume a: "\<not> run_fails f" "\<exists>r\<in>set (recipes db). r_id r = i"
  then have "filter (\<lambda>r. r_id r = i) (recipes db) \<noteq> []"
    by (auto simp: filter_empty_conv)
  with a show "delete_recipe_at f i db =
       (Json 200 deleted,
        tick (db\<lparr>recipes := filter (\<lambda>r. r_id r \<noteq> i) (recipes db),
                  recipe_materials := filter (\<lambda>m. m_recipe_id m \<noteq> i) (recipe_materials db)\<rparr>))"
    by (simp add: delete_recipe_at_def delete_recipe_row_def cascade_def)
qed

lemma delete_keeps_references:
  assumes "references_hold db"
  shows "references_hold (snd (delete_recipe_at f i db))
       \<and> saved (snd (delete_recipe_at f i db)) = saved db"
proof (cases "run_fails f")
  case True
  with assms show ?thesis
    by (simp add: delete_recipe_at_cases(1) references_hold_def tick_def)
next
  case False
  show ?thesis
  proof (cases "\<exists>r\<in>set (recipes db). r_id r = i")
    case no: False
    with False assms show ?thesis
      by (simp add: delete_recipe_at_cases(2) references_hold_def tick_def)
  next
    case yes: True
    have "\<exists>r\<in>set (recipes db). r_id r \<noteq> i \<and> r_id r = m_recipe_id m"
      if "m \<in> set (recipe_materials db)" "m_recipe_id m \<noteq> i" for m
      using assms that unfolding references_hold_def by metis
    then have "references_hold (db\<lparr>recipes := filter (\<lambda>r. r_id r \<noteq> i) (recipes db),
        recipe_materials := filter (\<lambda>m. m_recipe_id m \<noteq> i) (recipe_materials db)\<rparr>)"
      unfolding references_hold_def by auto
    with False yes show ?thesis
      by (simp add: delete_recipe_at_cases(3) references_hold_def tick_def)
  qed
qed

lemma delete_then_get:
  assumes "fst (delete_recipe_at f i db) = Json 200 deleted" and "\<not> get_fails f'"
  shows "fst (get_recipe_at f' i (snd (delete_recipe_at f i db))) = Error 404
       \<and> (\<forall>m\<in>set (recipe_materials (snd (delete_recipe_at f i db))). m_recipe_id m \<noteq> i)"
proof -
  from assms(1) have nf: "\<not> run_fails f"
    by (auto simp: delete_recipe_at_cases(1))
  have ex: "\<exists>r\<in>set (recipes db). r_id r = i"
  proof (rule ccontr)
    assume "\<not> (\<exists>r\<in>set (recipes db). r_id r = i)"
    then have "delete_recipe_at f i db = (Error 404, tick db)"
      using nf by (simp add: delete_recipe_at_cases(2))
    with assms(1) show False by simp
  qed
  have "find (\<lambda>r. r_id r = i) (filter (\<lambda>r. r_id r \<noteq> i) (recipes db)) = None"
    by (simp add: find_None_iff)
  with nf ex assms(2) show ?thesis
    by (simp add: delete_recipe_at_cases(3) get_recipe_at_def select_recipe_def tick_def)
qed

text \<open>
  Claim C5. Every material row references an existing recipe: this holds in the empty
  store and, with no transaction open, after each of the six operations when it held
  before. After a delete_recipe that answers 200, get_recipe of the same id answers 404
  (when its query does not fail) and no material row of that id is left.
\<close>


theorem references_preserved:
  assumes "saved db = None" and "references_hold db"
  shows "references_hold (empty_db c) \<and> saved (empty_db c) = None
       \<and> references_hold (snd (list_recipes f db)) \<and> saved (snd (list_recipes f db)) = None
       \<and> references_hold (snd (get_recipe f s db)) \<and> saved (snd (get_recipe f s db)) = None
       \<and> references_hold (snd (get_price_by_name f n db))
       \<and> saved (snd (get_price_by_name f n db)) = None
       \<and> references_hold (snd (create_recipe f b db)) \<and> saved (snd (create_recipe f b db)) = None
       \<and> references_hold (snd (update_recipe f s b db))
       \<and> saved (snd (update_recipe f s b db)) = None
       \<and> references_hold (snd (delete_recipe f s db)) \<and> saved (snd (delete_recipe f s db)) = None
       \<and> (fst (delete_recipe f s db) = Json 200 deleted \<and> \<not> get_fails f' \<longrightarrow>
            fst (get_recipe f' s (snd (delete_recipe f s db))) = Error 404
            \<and> (\<forall>m\<in>set (recipe_materials (snd (delete_recipe f s db))).
                  parseInt s \<noteq> Some (m_recipe_id m)))"
proof -
  have e: "references_hold (empty_db c) \<and> saved (empty_db c) = None"
    by (simp add: references_hold_def empty_db_def)
  have l: "references_hold (snd (list_recipes f db)) \<and> saved (snd (list_recipes f db)) = None"
    using assms reads_keep_rows(1) [of f db] references_rows [of "snd (list_recipes f db)" db]
    by simp
  have g: "references_hold (snd (get_recipe f s db)) \<and> saved (snd (get_recipe f s db)) = None"
    using assms reads_keep_rows(2) [of f s db] references_rows [of "snd (get_recipe f s db)" db]
    by simp
  have p: "references_hold (snd (get_price_by_name f n db))
      \<and> saved (snd (get_price_by_name f n db)) = None"
    using assms reads_keep_rows(3) [of f n db]
      references_rows [of "snd (get_price_by_name f n db)" db]
    by simp
  have c: "references_hold (snd (create_recipe f b db)) \<and> saved (snd (create_recipe f b db)) = None"
    using assms by (rule create_keeps_references)
  have u: "references_hold (snd (update_recipe f s b db))
      \<and> saved (snd (update_recipe f s b db)) = None"
    using assms update_keeps_references [OF assms]
    by (cases "parseInt s") (simp_all add: update_recipe_def)
  have d: "references_hold (snd (delete_recipe f s db)) \<and> saved (snd (delete_recipe f s db)) = None"
    using assms delete_keeps_references [OF assms(2)]
    by (cases "parseInt s") (simp_all add: delete_recipe_def)
  have dg: "fst (delete_recipe f s db) = Json 200 deleted \<and> \<not> get_fails f' \<longrightarrow>
            fst (get_recipe f' s (snd (delete_recipe f s db))) = Error 404
            \<and> (\<forall>m\<in>set (recipe_materials (snd (delete_recipe f s db))).
                  parseInt s \<noteq> Some (m_recipe_id m))"
  proof (cases "parseInt s")
    case None
    then show ?thesis by (simp add: delete_recipe_def)
  next
    case (Some i)
    then show ?thesis
      using delete_then_get [of f i db f']
      by (auto simp: delete_recipe_def get_recipe_def)
  qed
  from e l g p c u d dg show ?thesis by (intro conjI) (simp_all only: simp_thms)
qed

theorem references_preserved_witness:
  "references_hold sword_store
   \<and> fst (delete_recipe no_faults (units ''1'') sword_store) = Json 200 deleted
   \<and> references_hold (snd (delete_recipe no_faults (units ''1'') sword_store))
   \<and> recipe_materials (snd (delete_recipe no_faults (units ''1'') sword_store)) = []
   \<and> fst (get_recipe no_faults (units ''1'') (snd (delete_recipe no_faults (units ''1'') sword_store)))
       = Error 404
   \<and> references_hold (snd (create_recipe no_faults sword sword_store))"
  using references_preserved [where db = sword_store and f = no_faults and s = "units ''1''"
      and n = "''Sword''" and b = sword and f' = no_faults and c = as_bound]
  by (simp add: eval_defs references_hold_def)

section \<open>Reading back what was created\<close>

lemma nonempty_text_truthy: "nonempty_text v \<Longrightarrow> truthy v"
  by (cases v) simp_all

lemma number_set_truthy: "number_set v \<Longrightarrow> truthy v"
  by (cases v) simp_all

lemma valid_not_invalid:
  "valid_material m \<Longrightarrow> material_invalid m = Inr False"
  by (cases m)
     (simp_all add: valid_material_def material_invalid_def nonempty_text_truthy number_set_truthy)

lemma valid_some_invalid:
  "\<forall>m\<in>set ms. valid_material m \<Longrightarrow> some_invalid ms = Inr False"
  by (induction ms) (simp_all add: valid_not_invalid)

text \<open>A price that is a number or absent is stored, and read back, as the number or 0.\<close>

lemma price_stored:
  assumes "typed_columns c" and "number_or_absent v"
  shows "c C_npc_sell_price (or_else v (JNum 0)) = price_read_back v"
    and "c C_default_npc_price (or_else v (JNum 0)) = price_read_back v"
  using assms by (cases v; simp add: typed_columns_def or_else_def)+

lemma text_stored:
  assumes "typed_columns c" and "nonempty_text v"
  shows "c C_name v = v" and "c C_material_name v = v" and "c C_material_type v = v"
  using assms by (cases v; simp add: typed_columns_def)+

lemma quantity_stored:
  assumes "typed_columns c" and "number_set v"
  shows "c C_quantity_produced v = v" and "c C_quantity v = v"
  using assms by (cases v; simp add: typed_columns_def)+

lemma valid_read_back:
  assumes "typed_columns c" and "valid_material m"
  shows "material_json (material_params c i m) = material_read_back m"
  using assms
  by (simp add: material_json_def material_params_def material_read_back_def valid_material_def
        text_stored quantity_stored price_stored)

lemma next_rowid_fresh: "r \<in> set rs \<Longrightarrow> r_id r < next_rowid rs"
proof -
  assume r: "r \<in> set rs"
  then have "r_id r \<le> Max (set (map r_id rs))" by (intro Max_ge) auto
  with r show ?thesis by (auto simp: next_rowid_def)
qed

lemma find_fresh:
  "\<forall>r\<in>set rs. r_id r \<noteq> i \<Longrightarrow>
     find (\<lambda>r. r_id r = i) (rs @ [new]) = (if r_id new = i then Some new else None)"
  by (induction rs) auto

lemma get_created:
  assumes "references_hold db"
    and "recipes db' = recipes db @ [new]" and "r_id new = next_rowid (recipes db)"
    and "recipe_materials db' = recipe_materials db @ map (material_params c (r_id new)) ms"
  shows "fst (get_recipe_at no_faults (r_id new) db') =
           Json 200 (JObj (recipe_columns new @
             [(''materials'',
               JArr (map (\<lambda>m. material_json (material_params c (r_id new) m)) ms))]))"
proof -
  have fresh: "\<forall>r\<in>set (recipes db). r_id r \<noteq> r_id new"
    using next_rowid_fresh assms(3) by fastforce
  then have f: "find (\<lambda>r. r_id r = r_id new) (recipes db') = Some new"
    by (simp add: assms(2) find_fresh)
  have "\<forall>m\<in>set (recipe_materials db). m_recipe_id m \<noteq> r_id new"
    using fresh assms(1) by (fastforce simp: references_hold_def)
  then have old: "filter (\<lambda>m. m_recipe_id m = r_id new) (recipe_materials db) = []"
    by (auto simp: filter_empty_conv)
  have new: "filter (\<lambda>m. m_recipe_id m = r_id new) (map (material_params c (r_id new)) ms)
      = map (material_params c (r_id new)) ms"
    by (simp add: filter_id_conv)
  show ?thesis
    using f old new
    by (simp add: get_recipe_at_def select_recipe_def select_materials_def tick_def assms(4)
          no_faults_def)
qed

lemma create_then_get:
  assumes "saved db = None" and "references_hold db" and "validate b = None"
  shows "fst (create_recipe no_faults b db) = Json 201 (created (next_rowid (recipes db)))"
    and "fst (get_recipe_at no_faults (next_rowid (recipes db))
              (snd (create_recipe no_faults b db))) =
          Json 200 (JObj
            [(''id'', JNum (of_int (next_rowid (recipes db)))),
             (''name'', store_as db C_name (field b ''name'')),
             (''quantity_produced'',
              store_as db C_quantity_produced (field b ''quantity_produced'')),
             (''npc_sell_price'',
              store_as db C_npc_sell_price (or_else (field b ''npc_sell_price'') (JNum 0))),
             (''materials'', JArr (map (\<lambda>m. material_json
                  (material_params (store_as db) (next_rowid (recipes db)) m))
                (elements (field b ''materials''))))])"
proof -
  have nf: "\<not> run_fails no_faults" "\<not> finalize_fails no_faults"
    "\<forall>k<length (elements (field b ''materials'')). \<not> material_fails no_faults k"
    by (simp_all add: no_faults_def)
  show "fst (create_recipe no_faults b db) = Json 201 (created (next_rowid (recipes db)))"
    by (rule create_succeeds(1) [OF assms(1,3) nf])
  let ?new = "new_recipe (store_as db) (next_rowid (recipes db)) (field b ''name'')
      (field b ''quantity_produced'') (or_else (field b ''npc_sell_price'') (JNum 0))"
  have "fst (get_recipe_at no_faults (r_id ?new) (snd (create_recipe no_faults b db))) =
           Json 200 (JObj (recipe_columns ?new @
             [(''materials'',
               JArr (map (\<lambda>m. material_json (material_params (store_as db) (r_id ?new) m))
                 (elements (field b ''materials''))))]))"
    by (rule get_created [OF assms(2)])
       (simp_all add: create_succeeds(2,3) [OF assms(1,3) nf])
  then show "fst (get_recipe_at no_faults (next_rowid (recipes db))
              (snd (create_recipe no_faults b db))) =
          Json 200 (JObj
            [(''id'', JNum (of_int (next_rowid (recipes db)))),
             (''name'', store_as db C_name (field b ''name'')),
             (''quantity_produced'',
              store_as db C_quantity_produced (field b ''quantity_produced'')),
             (''npc_sell_price'',
              store_as db C_npc_sell_price (or_else (field b ''npc_sell_price'') (JNum 0))),
             (''materials'', JArr (map (\<lambda>m. material_json
                  (material_params (store_as db) (next_rowid (recipes db)) m))
                (elements (field b ''materials''))))])"
    by (simp add: recipe_columns_def new_recipe_def)
qed

text \<open>
  Claim C4, as amended. For every create_recipe input that passes the validation, with no
  failure of the store, get_recipe of the returned id answers that id and, for name,
  quantity_produced, npc_sell_price (0 when it was absent) and the material_name, quantity,
  material_type and default_npc_price (0 when it was absent) of each material, in the
  order of the input, what the store reads back of the value that was bound. For a valid
  input (a non-empty name, a positive quantity_produced, an npc_sell_price that is a number
  or absent, and materials that each have a non-empty material_name and material_type, a
  positive quantity and a default_npc_price that is a number or absent) these are the values
  supplied: the materials list has, in the order of the input (so also as a set), for each
  material its material_name, quantity and material_type as supplied and its
  default_npc_price as supplied or 0 when it was absent. No other property of a material is
  read back. (The theorem asks of a quantity only that it is a number other than 0.)
\<close>

theorem create_then_get_round_trip:
  assumes "saved db = None" and "references_hold db" and "validate b = None"
    and "parseInt s = Some (next_rowid (recipes db))"
  shows "fst (create_recipe no_faults b db) = Json 201 (created (next_rowid (recipes db)))
       \<and> fst (get_recipe no_faults s (snd (create_recipe no_faults b db))) =
           Json 200 (JObj
             [(''id'', JNum (of_int (next_rowid (recipes db)))),
              (''name'', store_as db C_name (field b ''name'')),
              (''quantity_produced'',
               store_as db C_quantity_produced (field b ''quantity_produced'')),
              (''npc_sell_price'',
               store_as db C_npc_sell_price (or_else (field b ''npc_sell_price'') (JNum 0))),
              (''materials'', JArr (map (\<lambda>m. material_json
                   (material_params (store_as db) (next_rowid (recipes db)) m))
                 (elements (field b ''materials''))))])
       \<and> (typed_columns (store_as db) \<and> nonempty_text (field b ''name'')
            \<and> number_set (field b ''quantity_produced'')
            \<and> number_or_absent (field b ''npc_sell_price'')
            \<and> (\<forall>m\<in>set (elements (field b ''materials'')). valid_material m) \<longrightarrow>
            fst (get_recipe no_faults s (snd (create_recipe no_faults b db))) =
              Json 200 (JObj
                [(''id'', JNum (of_int (next_rowid (recipes db)))),
                 (''name'', field b ''name''),
                 (''quantity_produced'', field b ''quantity_produced''),
                 (''npc_sell_price'', price_read_back (field b ''npc_sell_price'')),
                 (''materials'',
                  JArr (map material_read_back (elements (field b ''materials''))))])
            \<and> set (elements (member (payload
                  (fst (get_recipe no_faults s (snd (create_recipe no_faults b db)))))
                  ''materials''))
                = material_read_back ` set (elements (field b ''materials'')))"
proof -
  note c = create_then_get(1) [OF assms(1,2,3)]
  have g: "fst (get_recipe no_faults s (snd (create_recipe no_faults b db))) =
           Json 200 (JObj
             [(''id'', JNum (of_int (next_rowid (recipes db)))),
              (''name'', store_as db C_name (field b ''name'')),
              (''quantity_produced'',
               store_as db C_quantity_produced (field b ''quantity_produced'')),
              (''npc_sell_price'',
               store_as db C_npc_sell_price (or_else (field b ''npc_sell_price'') (JNum 0))),
              (''materials'', JArr (map (\<lambda>m. material_json
                   (material_params (store_as db) (next_rowid (recipes db)) m))
                 (elements (field b ''materials''))))])"
    using create_then_get(2) [OF assms(1,2,3)] assms(4) by (simp add: get_recipe_def)
  have t: "fst (get_recipe no_faults s (snd (create_recipe no_faults b db))) =
              Json 200 (JObj
                [(''id'', JNum (of_int (next_rowid (recipes db)))),
                 (''name'', field b ''name''),
                 (''quantity_produced'', field b ''quantity_produced''),
                 (''npc_sell_price'', price_read_back (field b ''npc_sell_price'')),
                 (''materials'',
                  JArr (map material_read_back (elements (field b ''materials''))))])
            \<and> set (elements (member (payload
                  (fst (get_recipe no_faults s (snd (create_recipe no_faults b db)))))
                  ''materials''))
                = material_read_back ` set (elements (field b ''materials''))"
    if h: "typed_columns (store_as db) \<and> nonempty_text (field b ''name'')
            \<and> number_set (field b ''quantity_produced'')
            \<and> number_or_absent (field b ''npc_sell_price'')
            \<and> (\<forall>m\<in>set (elements (field b ''materials'')). valid_material m)"
  proof -
    from h have ty: "typed_columns (store_as db)" and n: "nonempty_text (field b ''name'')"
      and q: "number_set (field b ''quantity_produced'')"
      and p: "number_or_absent (field b ''npc_sell_price'')"
      and vm: "\<forall>m\<in>set (elements (field b ''materials'')). valid_material m"
      by simp_all
    have ms: "map (\<lambda>m. material_json
          (material_params (store_as db) (next_rowid (recipes db)) m))
        (elements (field b ''materials''))
        = map material_read_back (elements (field b ''materials''))"
      using ty vm by (simp add: valid_read_back)
    show ?thesis
      unfolding g ms
      using text_stored(1) [OF ty n] quantity_stored(1) [OF ty q] price_stored(1) [OF ty p]
      by simp
  qed
  from c g t show ?thesis by blast
qed

theorem create_then_get_round_trip_witness:
  "fst (create_recipe no_faults sword (empty_db as_bound)) = Json 201 (created 1)
   \<and> fst (get_recipe no_faults (units ''1'')
        (snd (create_recipe no_faults sword (empty_db as_bound)))) =
       Json 200 (JObj
         [(''id'', JNum 1), (''name'', JStr ''Sword''), (''quantity_produced'', JNum 1),
          (''npc_sell_price'', JNum 50),
          (''materials'', JArr [JObj [(''material_name'', JStr ''Iron''), (''quantity'', JNum 3),
             (''material_type'', JStr ''ore''), (''default_npc_price'', JNum 5)]])])"
  using create_then_get_round_trip [where db = "empty_db as_bound" and b = sword
      and s = "units ''1''"]
  by (simp add: eval_defs references_hold_def typed_columns_def valid_material_def
        material_read_back_def)

text \<open>
  Claim C4 as stated fails: a material without default_npc_price is valid, and it is read
  back with default_npc_price 0, so the materials read back are not the materials of the
  input, neither as a list nor as a set.
\<close>

theorem round_trip_counterexample:
  "valid_material
     (JObj [(''material_name'', JStr ''Iron''), (''quantity'', JNum 3),
            (''material_type'', JStr ''ore'')])
   \<and> fst (get_recipe no_faults (units ''1'') (snd (create_recipe no_faults
        [(''name'', JStr ''Sword''), (''quantity_produced'', JNum 1),
         (''npc_sell_price'', JNum 50),
         (''materials'', JArr [JObj [(''material_name'', JStr ''Iron''), (''quantity'', JNum 3),
            (''material_type'', JStr ''ore'')]])]
        (empty_db as_bound)))) =
     Json 200 (JObj
       [(''id'', JNum 1), (''name'', JStr ''Sword''), (''quantity_produced'', JNum 1),
        (''npc_sell_price'', JNum 50),
        (''materials'', JArr [JObj [(''material_name'', JStr ''Iron''), (''quantity'', JNum 3),
           (''material_type'', JStr ''ore''), (''default_npc_price'', JNum 0)]])])
   \<and> set [JObj [(''material_name'', JStr ''Iron''), (''quantity'', JNum 3),
           (''material_type'', JStr ''ore''), (''default_npc_price'', JNum 0)]]
     \<noteq> set [JObj [(''material_name'', JStr ''Iron''), (''quantity'', JNum 3),
           (''material_type'', JStr ''ore'')]]"
  by (simp add: eval_defs valid_material_def)

section \<open>The other operations\<close>

text \<open>
  Claim C3. update_recipe with an id that no recipe has, a body that passes the validation
  and an UPDATE that does not fail answers 404, because the UPDATE changed no row
  (\<^verbatim>\<open>this.changes === 0\<close>), and leaves the rows as they were, with no transaction open.
\<close>

theorem update_missing_id_not_found:
  assumes "saved db = None" and "parseInt s = Some i" and "\<forall>r\<in>set (recipes db). r_id r \<noteq> i"
    and "validate b = None" and "\<not> run_fails f"
  shows "fst (update_recipe f s b db) = Error 404
       \<and> fst (update_recipe_row (run_fails f) (field b ''name'') (field b ''quantity_produced'')
               (or_else (field b ''npc_sell_price'') (JNum 0)) i (db_begin db)) = Inr 0
       \<and> visible (snd (update_recipe f s b db)) = visible db
       \<and> saved (snd (update_recipe f s b db)) = None"
proof -
  from assms(3) have none: "filter (\<lambda>r. r_id r = i) (recipes db) = []"
    by (auto simp: filter_empty_conv)
  show ?thesis
    using assms(1,2,4,5) none
    by (simp add: update_recipe_def update_recipe_at_def update_recipe_row_def db_begin_def
          db_rollback_def tick_def visible_def)
qed

theorem update_missing_id_not_found_witness:
  "fst (update_recipe no_faults (units ''2'') sword sword_store) = Error 404
   \<and> visible (snd (update_recipe no_faults (units ''2'') sword sword_store)) = visible sword_store"
  using update_missing_id_not_found [of sword_store "units ''2''" 2 sword no_faults]
  by (simp add: eval_defs)

text \<open>
  Claim C10. get_recipe of an existing recipe that has no material row answers 200 when
  its two queries do not fail, and the response has the property materials, which is the
  empty list.
\<close>

theorem get_recipe_without_materials:
  assumes "parseInt s = Some i" and "find (\<lambda>r. r_id r = i) (recipes db) = Some row"
    and "\<forall>m\<in>set (recipe_materials db). m_recipe_id m \<noteq> i"
    and "\<not> get_fails f" and "\<not> all_fails f"
  shows "fst (get_recipe f s db) =
           Json 200 (JObj (recipe_columns row @ [(''materials'', JArr [])]))
       \<and> member (payload (fst (get_recipe f s db))) ''materials'' = JArr []"
proof -
  from assms(3) have none: "filter (\<lambda>m. m_recipe_id m = i) (recipe_materials db) = []"
    by (auto simp: filter_empty_conv)
  show ?thesis
    using assms(1,2,4,5) none
    by (simp add: get_recipe_def get_recipe_at_def select_recipe_def select_materials_def tick_def
          recipe_columns_def)
qed

theorem get_recipe_without_materials_witness:
  "fst (get_recipe no_faults (units ''1'') (sword_store\<lparr>recipe_materials := []\<rparr>)) =
     Json 200 (JObj [(''id'', JNum 1), (''name'', JStr ''Sword''),
       (''quantity_produced'', JNum 1), (''npc_sell_price'', JNum 50),
       (''materials'', JArr [])])"
  using get_recipe_without_materials [of "units ''1''" 1 "sword_store\<lparr>recipe_materials := []\<rparr>"
    "\<lparr>r_id = 1, r_name = JStr ''Sword'', r_quantity_produced = JNum 1,
      r_npc_sell_price = JNum 50\<rparr>" no_faults]
  by (simp add: eval_defs)

text \<open>
  Claim C8. When its query does not fail, list_recipes answers 200 with one object
  \<open>{id, name, npc_sell_price}\<close> for every recipe row, no row left out and none twice, in
  ascending order of the name (for two names that are strings: in the lexicographic order
  of their characters).
\<close>

theorem list_recipes_all_sorted:
  assumes "\<not> all_fails f"
  shows "\<exists>rs. fst (list_recipes f db) =
            Json 200 (JArr (map (\<lambda>r. JObj [(''id'', JNum (of_int (r_id r))),
                                     (''name'', r_name r),
                                     (''npc_sell_price'', r_npc_sell_price r)]) rs))
          \<and> mset rs = mset (recipes db)
          \<and> sorted (map (\<lambda>r. name_key (r_name r)) rs)
          \<and> sorted_wrt (\<lambda>x y. \<forall>a c. r_name x = JStr a \<and> r_name y = JStr c \<longrightarrow> a \<le> c) rs"
proof -
  let ?rs = "sort_key (\<lambda>r. name_key (r_name r)) (recipes db)"
  have s: "sorted (map (\<lambda>r. name_key (r_name r)) ?rs)" by simp
  have "sorted_wrt (\<lambda>x y. name_key (r_name x) \<le> name_key (r_name y)) ?rs"
    using s by (simp add: sorted_map)
  then have t: "sorted_wrt (\<lambda>x y. \<forall>a c. r_name x = JStr a \<and> r_name y = JStr c \<longrightarrow> a \<le> c) ?rs"
    by (rule sorted_wrt_mono_rel [rotated]) auto
  have "fst (list_recipes f db) =
      Json 200 (JArr (map (\<lambda>r. JObj [(''id'', JNum (of_int (r_id r))), (''name'', r_name r),
                                     (''npc_sell_price'', r_npc_sell_price r)]) ?rs))"
    using assms by (simp add: list_recipes_def select_items_def item_json_def)
  with s t show ?thesis by (intro exI [of _ ?rs]) simp
qed

theorem list_recipes_all_sorted_witness:
  "fst (list_recipes no_faults
      (sword_store\<lparr>recipes := recipes sword_store @
         [\<lparr>r_id = 2, r_name = JStr ''Axe'', r_quantity_produced = JNum 1,
           r_npc_sell_price = JNum 0\<rparr>]\<rparr>)) =
     Json 200 (JArr
       [JObj [(''id'', JNum 2), (''name'', JStr ''Axe''), (''npc_sell_price'', JNum 0)],
        JObj [(''id'', JNum 1), (''name'', JStr ''Sword''), (''npc_sell_price'', JNum 50)]])"
  using list_recipes_all_sorted [of no_faults
      "sword_store\<lparr>recipes := recipes sword_store @
         [\<lparr>r_id = 2, r_name = JStr ''Axe'', r_quantity_produced = JNum 1,
           r_npc_sell_price = JNum 0\<rparr>]\<rparr>"]
  by (simp add: eval_defs)

section \<open>The id of the path\<close>

lemma get_recipe_at_issues: "issued db < issued (snd (get_recipe_at f i db))"
  by (auto simp: get_recipe_at_def select_recipe_def select_materials_def tick_def
      split: option.splits)

lemma delete_recipe_at_issues: "issued db < issued (snd (delete_recipe_at f i db))"
  by (auto simp: delete_recipe_at_def delete_recipe_row_def tick_def)

lemma update_recipe_at_issues:
  "validate b = None \<Longrightarrow> issued db < issued (snd (update_recipe_at f i b db))"
  by (auto simp: update_recipe_at_def update_recipe_row_def delete_materials_def finalize_def
        db_begin_def db_rollback_def db_commit_def tick_def case_prod_beta
      split: option.splits)

text \<open>A string that begins with decimal digits is read as the number of those digits.\<close>

lemma parseInt_leading_digits:
  assumes "ds \<noteq> []" and "list_all is_digit ds" and "rest = [] \<or> \<not> is_digit (hd rest)"
  shows "parseInt (ds @ rest) = Some (digits_value ds)"
proof -
  from assms(1,2) have d: "is_digit (hd ds)" by (cases ds) simp_all
  then have ns: "\<not> is_space (hd ds)" and sg: "hd ds \<noteq> 45" "hd ds \<noteq> 43"
    by (auto simp: is_digit_def is_space_def)
  from ns assms(1) have dw: "dropWhile is_space (ds @ rest) = ds @ rest"
    by (simp add: dropWhile_eq_self_iff)
  from assms(2) have "takeWhile is_digit (ds @ rest) = ds @ takeWhile is_digit rest"
    by (simp add: list_all_iff)
  moreover from assms(3) have "takeWhile is_digit rest = []"
    by (simp add: takeWhile_eq_Nil_iff)
  ultimately have tw: "takeWhile is_digit (ds @ rest) = ds" by simp
  show ?thesis
    using assms(1) sg dw tw by (simp add: parseInt_def)
qed

text \<open>
  Claim C7, as amended. A request to GET /api/items/:id/recipe, PUT /api/items/:id or
  DELETE /api/items/:id is answered 400 with no call to the database made (the store is as
  before) when parseInt turns its id parameter into NaN, that is, when no decimal digit
  follows the optional white space and sign; GET and DELETE answer so in no other case.
  An id that parseInt reads as a number is handled as that number, and GET, DELETE and a
  PUT whose body passes the validation go to the database; an id that begins with decimal
  digits is read as the number of those digits, whatever follows them.
\<close>

theorem unparsable_id_rejected:
  "(get_recipe f s db = (Error 400, db)) = (parseInt s = None)
   \<and> (delete_recipe f s db = (Error 400, db)) = (parseInt s = None)
   \<and> (parseInt s = None \<longrightarrow> update_recipe f s b db = (Error 400, db))
   \<and> (parseInt s = Some i \<longrightarrow>
        get_recipe f s db = get_recipe_at f i db
        \<and> issued db < issued (snd (get_recipe f s db))
        \<and> delete_recipe f s db = delete_recipe_at f i db
        \<and> issued db < issued (snd (delete_recipe f s db))
        \<and> update_recipe f s b db = update_recipe_at f i b db
        \<and> (validate b = None \<longrightarrow> issued db < issued (snd (update_recipe f s b db))))
   \<and> (ds \<noteq> [] \<and> list_all is_digit ds \<and> (rest = [] \<or> \<not> is_digit (hd rest)) \<longrightarrow>
        parseInt (ds @ rest) = Some (digits_value ds))"
proof (cases "parseInt s")
  case None
  then show ?thesis
    by (simp add: get_recipe_def update_recipe_def delete_recipe_def parseInt_leading_digits)
next
  case (Some j)
  have g: "get_recipe f s db \<noteq> (Error 400, db)"
    using get_recipe_at_issues [of db f j] Some
    by (auto simp: get_recipe_def)
  have d: "delete_recipe f s db \<noteq> (Error 400, db)"
    using delete_recipe_at_issues [of db f j] Some
    by (auto simp: delete_recipe_def)
  show ?thesis
    using Some g d get_recipe_at_issues [of db f j] delete_recipe_at_issues [of db f j]
      update_recipe_at_issues [of b db f j]
    by (auto simp: get_recipe_def update_recipe_def delete_recipe_def parseInt_leading_digits)
qed

theorem unparsable_id_rejected_witness:
  "parseInt (units ''abc'') = None
   \<and> parseInt [160, 49] = Some 1
   \<and> get_recipe no_faults (units ''abc'') sword_store = (Error 400, sword_store)
   \<and> update_recipe no_faults (units ''abc'') sword sword_store = (Error 400, sword_store)
   \<and> delete_recipe no_faults (units ''abc'') sword_store = (Error 400, sword_store)
   \<and> get_recipe no_faults [160, 49] sword_store \<noteq> (Error 400, sword_store)
   \<and> issued (snd (get_recipe no_faults [160, 49] sword_store)) = 7
   \<and> parseInt (units ''12abc'') = Some 12"
  using unparsable_id_rejected [where s = "units ''abc''" and f = no_faults
      and db = sword_store and b = sword and ds = "units ''12''" and rest = "units ''abc''"]
    unparsable_id_rejected [where s = "[160, 49]" and f = no_faults
      and db = sword_store and b = sword and i = 1 and ds = "[49]" and rest = "[]"]
  by (simp add: eval_defs)

text \<open>
  Claim C7 as stated fails: \<^verbatim>\<open>12abc\<close> is not a numeric string, but parseInt reads
  12 from it, and GET and DELETE go to the store (one call) and answer 404.
\<close>

theorem non_numeric_id_counterexample:
  "\<not> numeric_string (units ''12abc'')
   \<and> get_recipe no_faults (units ''12abc'') (empty_db as_bound)
       = (Error 404, \<lparr>recipes = [], recipe_materials = [], saved = None, issued = 1,
                       store_as = as_bound\<rparr>)
   \<and> status (fst (delete_recipe no_faults (units ''12abc'') (empty_db as_bound))) = 404
   \<and> issued (snd (delete_recipe no_faults (units ''12abc'') (empty_db as_bound))) = 1"
  by (simp add: eval_defs numeric_string_def)

section \<open>The validation\<close>

lemma some_invalid_nonnull:
  "\<forall>m\<in>set ms. \<not> nullish m \<Longrightarrow>
     some_invalid ms =
       Inr (\<exists>m\<in>set ms. \<not> truthy (member m ''material_name'') \<or> \<not> truthy (member m ''quantity'')
                          \<or> \<not> truthy (member m ''material_type''))"
  by (induction ms) (auto simp: material_invalid_def split: bool.splits)

lemma validate_nonnull:
  assumes "\<forall>m\<in>set (elements (field b ''materials'')). \<not> nullish m"
  shows "validate b =
     (if \<not> truthy (field b ''name'') \<or> \<not> truthy (field b ''quantity_produced'')
         \<or> \<not> isArray (field b ''materials'')
         \<or> (\<exists>m\<in>set (elements (field b ''materials'')).
               \<not> truthy (member m ''material_name'') \<or> \<not> truthy (member m ''quantity'')
               \<or> \<not> truthy (member m ''material_type''))
      then Some (Error 400) else None)"
proof -
  have "isArray v \<Longrightarrow> truthy v" for v by (cases v) simp_all
  then show ?thesis
    using some_invalid_nonnull [OF assms]
    by (auto simp: validate_def Let_def)
qed

text \<open>
  Claim C6, as amended. For a request whose materials have no null entry, create_recipe
  answers 400 exactly when name is falsy (absent, null, empty, 0 or false),
  quantity_produced is falsy (absent, null, 0, empty or false), materials is not an array,
  or some material has a falsy material_name, quantity or material_type; the store is then
  as before, no call to the database made. The sign of a number is not looked at.
\<close>

theorem create_rejects_falsy_fields:
  assumes "\<forall>m\<in>set (elements (field b ''materials'')). \<not> nullish m"
  shows "(fst (create_recipe f b db) = Error 400) =
           (\<not> truthy (field b ''name'') \<or> \<not> truthy (field b ''quantity_produced'')
            \<or> \<not> isArray (field b ''materials'')
            \<or> (\<exists>m\<in>set (elements (field b ''materials'')).
                  \<not> truthy (member m ''material_name'') \<or> \<not> truthy (member m ''quantity'')
                  \<or> \<not> truthy (member m ''material_type'')))
       \<and> (fst (create_recipe f b db) = Error 400 \<longrightarrow> snd (create_recipe f b db) = db)"
proof -
  have r: "(fst (create_recipe f b db) = Error 400) = (validate b = Some (Error 400))"
    using validate_range [of b]
    by (cases "validate b") (auto simp: create_response)
  have u: "validate b = Some (Error 400) \<Longrightarrow> snd (create_recipe f b db) = db"
    by (simp add: create_recipe_def)
  show ?thesis
    unfolding r using u by (simp add: validate_nonnull [OF assms])
qed

theorem create_rejects_falsy_fields_witness:
  "fst (create_recipe no_faults
      [(''name'', JStr ''Sword''), (''quantity_produced'', JNum 0), (''materials'', JArr [iron])]
      sword_store) = Error 400
   \<and> snd (create_recipe no_faults
      [(''name'', JStr ''Sword''), (''quantity_produced'', JNum 0), (''materials'', JArr [iron])]
      sword_store) = sword_store
   \<and> fst (create_recipe no_faults sword sword_store) \<noteq> Error 400"
  using
    create_rejects_falsy_fields [of
      "[(''name'', JStr ''Sword''), (''quantity_produced'', JNum 0), (''materials'', JArr [iron])]"
      no_faults sword_store]
    create_rejects_falsy_fields [of sword no_faults sword_store]
  by (simp add: eval_defs)

text \<open>
  Claim C6 as stated fails: a negative quantity_produced and a negative quantity of a
  material are truthy, so the request passes the validation, and the recipe is created.
\<close>

theorem negative_quantity_counterexample:
  "\<not> positive (JNum (- 1)) \<and> \<not> positive (JNum (- 3))
   \<and> validate
        [(''name'', JStr ''Sword''), (''quantity_produced'', JNum (- 1)),
         (''materials'', JArr [JObj [(''material_name'', JStr ''Iron''),
            (''quantity'', JNum (- 3)), (''material_type'', JStr ''ore'')]])] = None
   \<and> fst (create_recipe no_faults
        [(''name'', JStr ''Sword''), (''quantity_produced'', JNum (- 1)),
         (''materials'', JArr [JObj [(''material_name'', JStr ''Iron''),
            (''quantity'', JNum (- 3)), (''material_type'', JStr ''ore'')]])]
        (empty_db as_bound)) = Json 201 (created 1)"
  by (simp add: eval_defs)

section \<open>Prices\<close>

lemma find_after_update:
  "find (\<lambda>r. r_id r = i) (map (\<lambda>r. if r_id r = i then set_recipe c a q p r else r) rs)
   = map_option (set_recipe c a q p) (find (\<lambda>r. r_id r = i) rs)"
  by (induction rs) auto

lemma get_found:
  assumes "find (\<lambda>r. r_id r = i) (recipes db') = Some row"
    and "filter (\<lambda>m. m_recipe_id m = i) (recipe_materials db') = ms"
  shows "fst (get_recipe_at no_faults i db') =
     Json 200 (JObj (recipe_columns row @ [(''materials'', JArr (map material_json ms))]))"
  using assms
  by (simp add: get_recipe_at_def select_recipe_def select_materials_def tick_def no_faults_def)

lemma update_then_get:
  assumes "saved db = None" and "validate b = None" and "\<exists>r\<in>set (recipes db). r_id r = i"
  shows "fst (update_recipe_at no_faults i b db) = Json 200 (updated i)"
    and "fst (get_recipe_at no_faults i (snd (update_recipe_at no_faults i b db))) =
          Json 200 (JObj
            [(''id'', JNum (of_int i)),
             (''name'', store_as db C_name (field b ''name'')),
             (''quantity_produced'',
              store_as db C_quantity_produced (field b ''quantity_produced'')),
             (''npc_sell_price'',
              store_as db C_npc_sell_price (or_else (field b ''npc_sell_price'') (JNum 0))),
             (''materials'', JArr (map (\<lambda>m. material_json (material_params (store_as db) i m))
                (elements (field b ''materials''))))])"
proof -
  have nf: "\<not> run_fails no_faults" "\<not> delete_materials_fails no_faults"
    "\<not> finalize_fails no_faults"
    "\<forall>k<length (elements (field b ''materials'')). \<not> material_fails no_faults k"
    by (simp_all add: no_faults_def)
  show "fst (update_recipe_at no_faults i b db) = Json 200 (updated i)"
    using assms(2,3) by (auto simp: update_response no_faults_def)
  note r = update_succeeds(1) [OF assms(1,2) nf(1) assms(3) nf(2,3,4)]
  note m = update_succeeds(2) [OF assms(1,2) nf(1) assms(3) nf(2,3,4)]
  from assms(3) obtain row where row: "find (\<lambda>r. r_id r = i) (recipes db) = Some row"
    by (cases "find (\<lambda>r. r_id r = i) (recipes db)") (auto simp: find_None_iff)
  then have rid: "r_id row = i" by (auto simp: find_Some_iff)
  have new: "filter (\<lambda>m. m_recipe_id m = i) (map (material_params c i) ms)
      = map (material_params c i) ms" for c ms
    by (simp add: filter_id_conv)
  have old: "filter (\<lambda>m. m_recipe_id m = i)
      (filter (\<lambda>m. m_recipe_id m \<noteq> i) (recipe_materials db)) = []"
    by (auto simp: filter_empty_conv)
  show "fst (get_recipe_at no_faults i (snd (update_recipe_at no_faults i b db))) =
          Json 200 (JObj
            [(''id'', JNum (of_int i)),
             (''name'', store_as db C_name (field b ''name'')),
             (''quantity_produced'',
              store_as db C_quantity_produced (field b ''quantity_produced'')),
             (''npc_sell_price'',
              store_as db C_npc_sell_price (or_else (field b ''npc_sell_price'') (JNum 0))),
             (''materials'', JArr (map (\<lambda>m. material_json (material_params (store_as db) i m))
                (elements (field b ''materials''))))])"
  proof -
    have f: "find (\<lambda>r. r_id r = i) (recipes (snd (update_recipe_at no_faults i b db))) =
        Some (set_recipe (store_as db) (field b ''name'') (field b ''quantity_produced'')
                (or_else (field b ''npc_sell_price'') (JNum 0)) row)"
      unfolding r find_after_update using row by simp
    have g: "filter (\<lambda>m. m_recipe_id m = i)
        (recipe_materials (snd (update_recipe_at no_faults i b db))) =
        map (material_params (store_as db) i) (elements (field b ''materials''))"
      unfolding m using new old by simp
    show ?thesis
      unfolding get_found [OF f g] using rid by (simp add: recipe_columns_def set_recipe_def)
  qed
qed

text \<open>
  Claim C9, as amended. npc_sell_price is a number, of either sign: no sign is enforced,
  and a negative number is stored and read back as it is. It defaults to 0 when absent
  from a create_recipe or update_recipe request; likewise each material's
  default_npc_price is a number of either sign that defaults to 0 when absent. A recipe
  created without npc_sell_price reads back with npc_sell_price 0. (For any request that
  passes the validation the price read back is what the store reads back of the bound
  value, which is the price supplied when it is truthy and 0 otherwise.)
\<close>

theorem price_defaults_to_zero:
  assumes "saved db = None" and "references_hold db" and "validate b = None"
  shows "member (payload (fst (get_recipe_at no_faults (next_rowid (recipes db))
             (snd (create_recipe no_faults b db))))) ''npc_sell_price''
           = store_as db C_npc_sell_price (or_else (field b ''npc_sell_price'') (JNum 0))
       \<and> map (\<lambda>m. member m ''default_npc_price'')
             (elements (member (payload (fst (get_recipe_at no_faults (next_rowid (recipes db))
                (snd (create_recipe no_faults b db))))) ''materials''))
           = map (\<lambda>m. store_as db C_default_npc_price
                   (or_else (member m ''default_npc_price'') (JNum 0)))
               (elements (field b ''materials''))
       \<and> (typed_columns (store_as db) \<and> number_or_absent (field b ''npc_sell_price'') \<longrightarrow>
            member (payload (fst (get_recipe_at no_faults (next_rowid (recipes db))
              (snd (create_recipe no_faults b db))))) ''npc_sell_price''
              = price_read_back (field b ''npc_sell_price''))
       \<and> (typed_columns (store_as db)
            \<and> (\<forall>m\<in>set (elements (field b ''materials'')).
                  number_or_absent (member m ''default_npc_price'')) \<longrightarrow>
            map (\<lambda>m. member m ''default_npc_price'')
              (elements (member (payload (fst (get_recipe_at no_faults
                 (next_rowid (recipes db)) (snd (create_recipe no_faults b db))))) ''materials''))
              = map (\<lambda>m. price_read_back (member m ''default_npc_price''))
                  (elements (field b ''materials'')))
       \<and> (typed_columns (store_as db) \<and> field b ''npc_sell_price'' = JUndefined \<longrightarrow>
            member (payload (fst (get_recipe_at no_faults (next_rowid (recipes db))
              (snd (create_recipe no_faults b db))))) ''npc_sell_price'' = JNum 0)
       \<and> ((\<exists>r\<in>set (recipes db). r_id r = i) \<longrightarrow>
            member (payload (fst (get_recipe_at no_faults i
                (snd (update_recipe_at no_faults i b db))))) ''npc_sell_price''
              = store_as db C_npc_sell_price (or_else (field b ''npc_sell_price'') (JNum 0))
            \<and> map (\<lambda>m. member m ''default_npc_price'')
                (elements (member (payload (fst (get_recipe_at no_faults i
                   (snd (update_recipe_at no_faults i b db))))) ''materials''))
              = map (\<lambda>m. store_as db C_default_npc_price
                      (or_else (member m ''default_npc_price'') (JNum 0)))
                  (elements (field b ''materials''))
            \<and> (typed_columns (store_as db) \<and> number_or_absent (field b ''npc_sell_price'') \<longrightarrow>
                 member (payload (fst (get_recipe_at no_faults i
                   (snd (update_recipe_at no_faults i b db))))) ''npc_sell_price''
                   = price_read_back (field b ''npc_sell_price''))
            \<and> (typed_columns (store_as db)
                 \<and> (\<forall>m\<in>set (elements (field b ''materials'')).
                       number_or_absent (member m ''default_npc_price'')) \<longrightarrow>
                 map (\<lambda>m. member m ''default_npc_price'')
                   (elements (member (payload (fst (get_recipe_at no_faults i
                      (snd (update_recipe_at no_faults i b db))))) ''materials''))
                   = map (\<lambda>m. price_read_back (member m ''default_npc_price''))
                       (elements (field b ''materials''))))"
proof -
  have mat: "map (\<lambda>m. member m ''default_npc_price'')
      (map (\<lambda>m. material_json (material_params c j m)) ms)
      = map (\<lambda>m. c C_default_npc_price (or_else (member m ''default_npc_price'') (JNum 0))) ms"
    for c j ms
    by (simp add: material_json_def material_params_def)
  have rb: "map (\<lambda>m. store_as db C_default_npc_price
        (or_else (member m ''default_npc_price'') (JNum 0))) (elements (field b ''materials''))
      = map (\<lambda>m. price_read_back (member m ''default_npc_price''))
          (elements (field b ''materials''))"
    if "typed_columns (store_as db)"
      and "\<forall>m\<in>set (elements (field b ''materials'')).
             number_or_absent (member m ''default_npc_price'')"
    using that by (simp add: price_stored(2))
  note c = create_then_get(2) [OF assms]
  have c1: "member (payload (fst (get_recipe_at no_faults (next_rowid (recipes db))
             (snd (create_recipe no_faults b db))))) ''npc_sell_price''
           = store_as db C_npc_sell_price (or_else (field b ''npc_sell_price'') (JNum 0))"
    unfolding c by simp
  have c2: "map (\<lambda>m. member m ''default_npc_price'')
             (elements (member (payload (fst (get_recipe_at no_faults (next_rowid (recipes db))
                (snd (create_recipe no_faults b db))))) ''materials''))
           = map (\<lambda>m. store_as db C_default_npc_price
                   (or_else (member m ''default_npc_price'') (JNum 0)))
               (elements (field b ''materials''))"
    unfolding c using mat [of "store_as db" "next_rowid (recipes db)"] by simp
  have c3: "typed_columns (store_as db) \<and> number_or_absent (field b ''npc_sell_price'') \<longrightarrow>
            member (payload (fst (get_recipe_at no_faults (next_rowid (recipes db))
              (snd (create_recipe no_faults b db))))) ''npc_sell_price''
              = price_read_back (field b ''npc_sell_price'')"
    unfolding c1 by (simp add: price_stored(1))
  have c4: "typed_columns (store_as db)
            \<and> (\<forall>m\<in>set (elements (field b ''materials'')).
                  number_or_absent (member m ''default_npc_price'')) \<longrightarrow>
            map (\<lambda>m. member m ''default_npc_price'')
              (elements (member (payload (fst (get_recipe_at no_faults
                 (next_rowid (recipes db)) (snd (create_recipe no_faults b db))))) ''materials''))
              = map (\<lambda>m. price_read_back (member m ''default_npc_price''))
                  (elements (field b ''materials''))"
    unfolding c2 using rb by blast
  have c5: "typed_columns (store_as db) \<and> field b ''npc_sell_price'' = JUndefined \<longrightarrow>
            member (payload (fst (get_recipe_at no_faults (next_rowid (recipes db))
              (snd (create_recipe no_faults b db))))) ''npc_sell_price'' = JNum 0"
    unfolding c1 by (auto simp: or_else_def typed_columns_def)
  have u: "member (payload (fst (get_recipe_at no_faults i
                (snd (update_recipe_at no_faults i b db))))) ''npc_sell_price''
              = store_as db C_npc_sell_price (or_else (field b ''npc_sell_price'') (JNum 0))
            \<and> map (\<lambda>m. member m ''default_npc_price'')
                (elements (member (payload (fst (get_recipe_at no_faults i
                   (snd (update_recipe_at no_faults i b db))))) ''materials''))
              = map (\<lambda>m. store_as db C_default_npc_price
                      (or_else (member m ''default_npc_price'') (JNum 0)))
                  (elements (field b ''materials''))
            \<and> (typed_columns (store_as db) \<and> number_or_absent (field b ''npc_sell_price'') \<longrightarrow>
                 member (payload (fst (get_recipe_at no_faults i
                   (snd (update_recipe_at no_faults i b db))))) ''npc_sell_price''
                   = price_read_back (field b ''npc_sell_price''))
            \<and> (typed_columns (store_as db)
                 \<and> (\<forall>m\<in>set (elements (field b ''materials'')).
                       number_or_absent (member m ''default_npc_price'')) \<longrightarrow>
                 map (\<lambda>m. member m ''default_npc_price'')
                   (elements (member (payload (fst (get_recipe_at no_faults i
                      (snd (update_recipe_at no_faults i b db))))) ''materials''))
                   = map (\<lambda>m. price_read_back (member m ''default_npc_price''))
                       (elements (field b ''materials'')))"
    if x: "\<exists>r\<in>set (recipes db). r_id r = i"
  proof -
    note g = update_then_get(2) [OF assms(1,3) x]
    have u1: "member (payload (fst (get_recipe_at no_faults i
                (snd (update_recipe_at no_faults i b db))))) ''npc_sell_price''
              = store_as db C_npc_sell_price (or_else (field b ''npc_sell_price'') (JNum 0))"
      unfolding g by simp
    have u2: "map (\<lambda>m. member m ''default_npc_price'')
                (elements (member (payload (fst (get_recipe_at no_faults i
                   (snd (update_recipe_at no_faults i b db))))) ''materials''))
              = map (\<lambda>m. store_as db C_default_npc_price
                      (or_else (member m ''default_npc_price'') (JNum 0)))
                  (elements (field b ''materials''))"
      unfolding g using mat [of "store_as db" i] by simp
    have u3: "typed_columns (store_as db) \<and> number_or_absent (field b ''npc_sell_price'') \<longrightarrow>
                 member (payload (fst (get_recipe_at no_faults i
                   (snd (update_recipe_at no_faults i b db))))) ''npc_sell_price''
                   = price_read_back (field b ''npc_sell_price'')"
      unfolding u1 by (simp add: price_stored(1))
    have u4: "typed_columns (store_as db)
                 \<and> (\<forall>m\<in>set (elements (field b ''materials'')).
                       number_or_absent (member m ''default_npc_price'')) \<longrightarrow>
                 map (\<lambda>m. member m ''default_npc_price'')
                   (elements (member (payload (fst (get_recipe_at no_faults i
                      (snd (update_recipe_at no_faults i b db))))) ''materials''))
                   = map (\<lambda>m. price_read_back (member m ''default_npc_price''))
                       (elements (field b ''materials''))"
      unfolding u2 using rb by blast
    from u1 u2 u3 u4 show ?thesis by (intro conjI)
  qed
  from c1 c2 c3 c4 c5 u show ?thesis by blast
qed

theorem price_defaults_to_zero_witness:
  "fst (get_recipe_at no_faults 2 (snd (create_recipe no_faults
        [(''name'', JStr ''Axe''), (''quantity_produced'', JNum 1),
         (''materials'', JArr [JObj [(''material_name'', JStr ''Wood''), (''quantity'', JNum 2),
            (''material_type'', JStr ''log'')]])]
        sword_store))) =
     Json 200 (JObj
       [(''id'', JNum 2), (''name'', JStr ''Axe''), (''quantity_produced'', JNum 1),
        (''npc_sell_price'', JNum 0),
        (''materials'', JArr [JObj [(''material_name'', JStr ''Wood''), (''quantity'', JNum 2),
           (''material_type'', JStr ''log''), (''default_npc_price'', JNum 0)]])])
   \<and> member (payload (fst (get_recipe_at no_faults 1 (snd (update_recipe_at no_faults 1
        [(''name'', JStr ''Axe''), (''quantity_produced'', JNum 1),
         (''npc_sell_price'', JNum (- 5)),
         (''materials'', JArr [JObj [(''material_name'', JStr ''Wood''), (''quantity'', JNum 2),
            (''material_type'', JStr ''log'')]])]
        sword_store))))) ''npc_sell_price'' = JNum (- 5)"
  using
    price_defaults_to_zero [where db = sword_store and i = 1 and b =
        "[(''name'', JStr ''Axe''), (''quantity_produced'', JNum 1),
         (''materials'', JArr [JObj [(''material_name'', JStr ''Wood''), (''quantity'', JNum 2),
            (''material_type'', JStr ''log'')]])]"]
    price_defaults_to_zero [where db = sword_store and i = 1 and b =
        "[(''name'', JStr ''Axe''), (''quantity_produced'', JNum 1),
         (''npc_sell_price'', JNum (- 5)),
         (''materials'', JArr [JObj [(''material_name'', JStr ''Wood''), (''quantity'', JNum 2),
            (''material_type'', JStr ''log'')]])]"]
  by (simp add: eval_defs references_hold_def typed_columns_def)

text \<open>
  Claim C9 as stated fails: a negative npc_sell_price and a negative default_npc_price are
  stored and read back as they are.
\<close>

theorem negative_price_counterexample:
  "\<not> non_negative (JNum (- 5)) \<and> \<not> non_negative (JNum (- 2))
   \<and> fst (get_recipe no_faults (units ''1'') (snd (create_recipe no_faults
        [(''name'', JStr ''Sword''), (''quantity_produced'', JNum 1),
         (''npc_sell_price'', JNum (- 5)),
         (''materials'', JArr [JObj [(''material_name'', JStr ''Iron''), (''quantity'', JNum 3),
            (''material_type'', JStr ''ore''), (''default_npc_price'', JNum (- 2))]])]
        (empty_db as_bound)))) =
     Json 200 (JObj
       [(''id'', JNum 1), (''name'', JStr ''Sword''), (''quantity_produced'', JNum 1),
        (''npc_sell_price'', JNum (- 5)),
        (''materials'', JArr [JObj [(''material_name'', JStr ''Iron''), (''quantity'', JNum 3),
           (''material_type'', JStr ''ore''), (''default_npc_price'', JNum (- 2))]])])"
  by (simp add: eval_defs)

section \<open>The empty materials list\<close>

text \<open>
  Claim C2, as amended. create_recipe and update_recipe answer 400, the store as before
  and no call to the database made, when materials is absent or not a list. The empty
  list is a list and is accepted: with a truthy name and quantity_produced and no
  failure of the store, create_recipe answers 201 and stores the recipe with no material
  row; update_recipe of an existing id answers 200, stores the new scalar fields and
  leaves the recipe with no material row.
\<close>

theorem materials_must_be_a_list:
  "(\<not> isArray (field b ''materials'') \<longrightarrow>
      create_recipe f b db = (Error 400, db) \<and> update_recipe f s b db = (Error 400, db))
   \<and> (field b ''materials'' = JArr [] \<and> truthy (field b ''name'')
       \<and> truthy (field b ''quantity_produced'') \<and> saved db = None \<longrightarrow>
        fst (create_recipe no_faults b db) = Json 201 (created (next_rowid (recipes db)))
        \<and> recipes (snd (create_recipe no_faults b db)) = recipes db @
             [new_recipe (store_as db) (next_rowid (recipes db)) (field b ''name'')
                (field b ''quantity_produced'')
                (or_else (field b ''npc_sell_price'') (JNum 0))]
        \<and> recipe_materials (snd (create_recipe no_faults b db)) = recipe_materials db
        \<and> (parseInt s = Some i \<and> (\<exists>r\<in>set (recipes db). r_id r = i) \<longrightarrow>
             fst (update_recipe no_faults s b db) = Json 200 (updated i)
             \<and> recipes (snd (update_recipe no_faults s b db)) =
                 map (\<lambda>r. if r_id r = i
                     then set_recipe (store_as db) (field b ''name'')
                            (field b ''quantity_produced'')
                            (or_else (field b ''npc_sell_price'') (JNum 0)) r
                     else r) (recipes db)
             \<and> recipe_materials (snd (update_recipe no_faults s b db)) =
                 filter (\<lambda>m. m_recipe_id m \<noteq> i) (recipe_materials db)))"
proof -
  have a: "create_recipe f b db = (Error 400, db) \<and> update_recipe f s b db = (Error 400, db)"
    if "\<not> isArray (field b ''materials'')"
    using that
    by (cases "parseInt s")
       (simp_all add: create_recipe_def update_recipe_def update_recipe_at_def validate_def)
  have nf: "\<not> run_fails no_faults" "\<not> delete_materials_fails no_faults"
    "\<not> finalize_fails no_faults"
    "\<forall>k<length (elements (field b ''materials'')). \<not> material_fails no_faults k"
    by (simp_all add: no_faults_def)
  have e: "fst (create_recipe no_faults b db) = Json 201 (created (next_rowid (recipes db)))
        \<and> recipes (snd (create_recipe no_faults b db)) = recipes db @
             [new_recipe (store_as db) (next_rowid (recipes db)) (field b ''name'')
                (field b ''quantity_produced'')
                (or_else (field b ''npc_sell_price'') (JNum 0))]
        \<and> recipe_materials (snd (create_recipe no_faults b db)) = recipe_materials db
        \<and> (parseInt s = Some i \<and> (\<exists>r\<in>set (recipes db). r_id r = i) \<longrightarrow>
             fst (update_recipe no_faults s b db) = Json 200 (updated i)
             \<and> recipes (snd (update_recipe no_faults s b db)) =
                 map (\<lambda>r. if r_id r = i
                     then set_recipe (store_as db) (field b ''name'')
                            (field b ''quantity_produced'')
                            (or_else (field b ''npc_sell_price'') (JNum 0)) r
                     else r) (recipes db)
             \<and> recipe_materials (snd (update_recipe no_faults s b db)) =
                 filter (\<lambda>m. m_recipe_id m \<noteq> i) (recipe_materials db))"
    if h: "field b ''materials'' = JArr [] \<and> truthy (field b ''name'')
       \<and> truthy (field b ''quantity_produced'') \<and> saved db = None"
  proof -
    from h have v: "validate b = None" and s: "saved db = None"
      and m: "elements (field b ''materials'') = []"
      by (simp_all add: validate_def)
    note c = create_succeeds [OF s v nf(1,3,4)]
    have u: "fst (update_recipe no_faults s b db) = Json 200 (updated i)
             \<and> recipes (snd (update_recipe no_faults s b db)) =
                 map (\<lambda>r. if r_id r = i
                     then set_recipe (store_as db) (field b ''name'')
                            (field b ''quantity_produced'')
                            (or_else (field b ''npc_sell_price'') (JNum 0)) r
                     else r) (recipes db)
             \<and> recipe_materials (snd (update_recipe no_faults s b db)) =
                 filter (\<lambda>m. m_recipe_id m \<noteq> i) (recipe_materials db)"
      if p: "parseInt s = Some i" and x: "\<exists>r\<in>set (recipes db). r_id r = i"
      using update_then_get(1) [OF s v x] update_succeeds(1,2) [OF s v nf(1) x nf(2,3,4)] p m
      by (simp add: update_recipe_def)
    from c(1,2,3) m u show ?thesis by simp
  qed
  from a e show ?thesis by blast
qed

theorem materials_must_be_a_list_witness:
  "create_recipe no_faults
     [(''name'', JStr ''Sword''), (''quantity_produced'', JNum 1), (''materials'', JStr ''Iron'')]
     sword_store = (Error 400, sword_store)
   \<and> update_recipe no_faults (units ''1'')
     [(''name'', JStr ''Sword''), (''quantity_produced'', JNum 1), (''materials'', JStr ''Iron'')]
     sword_store = (Error 400, sword_store)
   \<and> fst (update_recipe no_faults (units ''1'')
     [(''name'', JStr ''Sword''), (''quantity_produced'', JNum 1), (''npc_sell_price'', JNum 60),
      (''materials'', JArr [])] sword_store) = Json 200 (updated 1)
   \<and> recipe_materials (snd (update_recipe no_faults (units ''1'')
     [(''name'', JStr ''Sword''), (''quantity_produced'', JNum 1), (''npc_sell_price'', JNum 60),
      (''materials'', JArr [])] sword_store)) = []"
  using
    materials_must_be_a_list [of
      "[(''name'', JStr ''Sword''), (''quantity_produced'', JNum 1), (''materials'', JStr ''Iron'')]"
      no_faults sword_store "units ''1''" 1]
    materials_must_be_a_list [of
      "[(''name'', JStr ''Sword''), (''quantity_produced'', JNum 1), (''npc_sell_price'', JNum 60),
      (''materials'', JArr [])]" no_faults sword_store "units ''1''" 1]
  by (simp add: eval_defs)

text \<open>
  Claim C2 as stated fails: a request with the empty materials list passes the validation,
  the Sword is created in the empty store, and in the scenario of the specification
  \<^verbatim>\<open>update_recipe(1, "Sword", 1, 60, [])\<close> answers 200, the price becomes 60 and the
  material row is deleted.
\<close>

theorem empty_materials_counterexample:
  "validate
     [(''name'', JStr ''Sword''), (''quantity_produced'', JNum 1), (''npc_sell_price'', JNum 50),
      (''materials'', JArr [])] = None
   \<and> create_recipe no_faults
     [(''name'', JStr ''Sword''), (''quantity_produced'', JNum 1), (''npc_sell_price'', JNum 50),
      (''materials'', JArr [])] (empty_db as_bound) =
     (Json 201 (created 1),
      \<lparr>recipes = [\<lparr>r_id = 1, r_name = JStr ''Sword'', r_quantity_produced = JNum 1,
                   r_npc_sell_price = JNum 50\<rparr>],
       recipe_materials = [], saved = None, issued = 4, store_as = as_bound\<rparr>)
   \<and> update_recipe no_faults (units ''1'')
     [(''name'', JStr ''Sword''), (''quantity_produced'', JNum 1), (''npc_sell_price'', JNum 60),
      (''materials'', JArr [])]
     \<lparr>recipes = [\<lparr>r_id = 1, r_name = JStr ''Sword'', r_quantity_produced = JNum 1,
                  r_npc_sell_price = JNum 50\<rparr>],
      recipe_materials = [\<lparr>m_recipe_id = 1, m_material_name = JStr ''Iron'',
                           m_quantity = JNum 3, m_material_type = JStr ''ore'',
                           m_default_npc_price = JNum 5\<rparr>],
      saved = None, issued = 5, store_as = as_bound\<rparr> =
     (Json 200 (updated 1),
      \<lparr>recipes = [\<lparr>r_id = 1, r_name = JStr ''Sword'', r_quantity_produced = JNum 1,
                   r_npc_sell_price = JNum 60\<rparr>],
       recipe_materials = [], saved = None, issued = 10, store_as = as_bound\<rparr>)"
  by (simp add: eval_defs)

end
